theory Spec2Isabelle
  imports Complex_Main
begin

section \<open>Python values\<close>

text \<open>
  A Python \<open>float\<close> is an IEEE 754 binary64 number. It is kept in sign-magnitude form:
  \<open>Fin s m\<close> is the finite number of magnitude \<open>m\<close> (a non-negative rational that
  binary64 represents), negative when \<open>s\<close> holds, so that \<open>Fin True 0\<close> is \<open>-0.0\<close>;
  \<open>Inf s\<close> is the infinity of that sign.
\<close>

datatype pyfloat = Fin bool rat | Inf bool | NaN

text \<open>
  The values \<open>json.load\<close> produces and \<open>json.dump\<close> accepts: \<open>None\<close>, \<open>bool\<close>,
  \<open>int\<close>, \<open>float\<close>, \<open>str\<close>, \<open>list\<close> and \<open>dict\<close> (a \<open>dict\<close> keeps insertion order,
  so it is an association list).
\<close>

datatype json =
    JNull
  | JBool bool
  | JInt int
  | JNum pyfloat
  | JStr string
  | JArr "json list"
  | JObj "(string \<times> json) list"

text \<open>The exceptions of the script; each of them is a subclass of \<open>Exception\<close>.\<close>

datatype py_error =
    FileNotFoundError string
  | PermissionError string
  | IsADirectoryError string
  | UnicodeEncodeError string
  | JSONDecodeError
  | AttributeError string
  | KeyError string
  | RuntimeError string
  | EEException string
  | GithubException string

section \<open>Floating-point arithmetic\<close>

text \<open>\<open>int.bit_length\<close>: the number of binary digits of a positive integer.\<close>

function bit_length :: "int \<Rightarrow> int" where
  "bit_length n = (if n \<le> 0 then 0 else 1 + bit_length (n div 2))"
  by pat_completeness auto
termination
  by (relation "measure nat") auto

declare bit_length.simps [simp del]

definition pow2 :: "int \<Rightarrow> rat" where
  "pow2 k = (if 0 \<le> k then 2 ^ nat k else 1 / 2 ^ nat (- k))"

text \<open>The exponent \<open>e\<close> of a positive rational \<open>q\<close>: \<open>2^e \<le> q < 2^(e+1)\<close>.\<close>

definition floor_log2 :: "rat \<Rightarrow> int" where
  "floor_log2 q =
     (let (a, b) = quotient_of q;
          k = bit_length a - bit_length b
      in if pow2 k \<le> q then k else k - 1)"

text \<open>Rounding to the nearest integer, a tie to the even one.\<close>

definition round_half_even :: "rat \<Rightarrow> int" where
  "round_half_even q =
     (let f = \<lfloor>q\<rfloor>; r = q - of_int f
      in if r < 1 / 2 then f
         else if 1 / 2 < r then f + 1
         else if even f then f else f + 1)"

text \<open>
  The binary64 rounding of a magnitude \<open>q \<ge> 0\<close> with an unbounded exponent above: 53
  significant bits for a normal number, multiples of \<open>2^(-1074)\<close> below \<open>2^(-1022)\<close>.
\<close>

definition round_binary64 :: "rat \<Rightarrow> rat" where
  "round_binary64 q =
     (if q = 0 then 0
      else (let e = max (floor_log2 q) (- 1022); u = pow2 (e - 52)
            in of_int (round_half_even (q / u)) * u))"

text \<open>The float of sign \<open>s\<close> nearest to the magnitude \<open>q\<close>; it overflows to an infinity.\<close>

definition to_float :: "bool \<Rightarrow> rat \<Rightarrow> pyfloat" where
  "to_float s q = (let r = round_binary64 q in if pow2 1024 \<le> r then Inf s else Fin s r)"

text \<open>A decimal literal of the source, such as \<open>273.15\<close>, denotes the nearest float.\<close>

definition float_of_rat :: "rat \<Rightarrow> pyfloat" where
  "float_of_rat q = to_float (q < 0) \<bar>q\<bar>"

definition signed :: "bool \<Rightarrow> rat \<Rightarrow> rat" where
  "signed s m = (if s then - m else m)"

text \<open>\<open>x * y\<close> on floats. It never raises: it overflows to an infinity.\<close>

fun fmul :: "pyfloat \<Rightarrow> pyfloat \<Rightarrow> pyfloat" where
  "fmul NaN y = NaN"
| "fmul x NaN = NaN"
| "fmul (Inf s) (Inf t) = Inf (s \<noteq> t)"
| "fmul (Inf s) (Fin t n) = (if n = 0 then NaN else Inf (s \<noteq> t))"
| "fmul (Fin s m) (Inf t) = (if m = 0 then NaN else Inf (s \<noteq> t))"
| "fmul (Fin s m) (Fin t n) = to_float (s \<noteq> t) (m * n)"

fun fneg :: "pyfloat \<Rightarrow> pyfloat" where
  "fneg NaN = NaN"
| "fneg (Inf s) = Inf (\<not> s)"
| "fneg (Fin s m) = Fin (\<not> s) m"

text \<open>\<open>x + y\<close> on floats; an exact zero sum is \<open>-0.0\<close> only when both operands are negative.\<close>

fun fadd :: "pyfloat \<Rightarrow> pyfloat \<Rightarrow> pyfloat" where
  "fadd NaN y = NaN"
| "fadd x NaN = NaN"
| "fadd (Inf s) (Inf t) = (if s = t then Inf s else NaN)"
| "fadd (Inf s) (Fin t n) = Inf s"
| "fadd (Fin s m) (Inf t) = Inf t"
| "fadd (Fin s m) (Fin t n) =
     (let q = signed s m + signed t n
      in if q = 0 then Fin (s \<and> t) 0 else to_float (q < 0) \<bar>q\<bar>)"

definition fsub :: "pyfloat \<Rightarrow> pyfloat \<Rightarrow> pyfloat" where
  "fsub x y = fadd x (fneg y)"

section \<open>Timestamps\<close>

text \<open>A reading of the UTC clock, \<open>datetime.datetime.now(datetime.timezone.utc)\<close>.\<close>

record datetime =
  year :: nat
  month :: nat
  day :: nat
  hour :: nat
  minute :: nat
  second :: nat
  microsecond :: nat

definition digit :: "nat \<Rightarrow> char" where
  "digit d = ''0123456789'' ! d"

fun str_nat :: "nat \<Rightarrow> string" where
  "str_nat n = (if n < 10 then [digit n] else str_nat (n div 10) @ [digit (n mod 10)])"

declare str_nat.simps [simp del]

text \<open>The format \<open>%0wd\<close>: decimal digits, padded with zeros on the left to width \<open>w\<close>.\<close>

definition zero_pad :: "nat \<Rightarrow> nat \<Rightarrow> string" where
  "zero_pad w n = (let s = str_nat n in replicate (w - length s) (CHR ''0'') @ s)"

text \<open>
  \<open>isoformat()\<close> of a datetime whose time zone is \<open>timezone.utc\<close>: the date, \<open>T\<close>, the
  time, the microseconds when they are not zero, and the offset \<open>+00:00\<close>.
\<close>

definition isoformat :: "datetime \<Rightarrow> string" where
  "isoformat d =
     zero_pad 4 (year d) @ ''-'' @ zero_pad 2 (month d) @ ''-'' @ zero_pad 2 (day d) @ ''T'' @
     zero_pad 2 (hour d) @ '':'' @ zero_pad 2 (minute d) @ '':'' @ zero_pad 2 (second d) @
     (if microsecond d = 0 then [] else ''.'' @ zero_pad 6 (microsecond d)) @
     ''+00:00''"

text \<open>
  \<^verbatim>\<open>
  def now_iso():
      return datetime.datetime.now(datetime.timezone.utc).isoformat() + "Z"
  \<close>
  The argument is the reading of the clock.
\<close>

definition now_iso :: "datetime \<Rightarrow> string" where
  "now_iso now = isoformat now @ ''Z''"

section \<open>Local files\<close>

text \<open>
  A path of the working directory names no file, something that cannot be opened for
  reading (a directory, a file without the permission), or a file with its text. Apart
  from that, \<open>open(path, "w")\<close> may raise at a path (a directory, a file or a directory
  without the permission to write): \<open>unwritable\<close> gives the exception, if any.
\<close>

datatype file_state = Missing | Unreadable | Text string

record filesystem =
  node :: "string \<Rightarrow> file_state"
  unwritable :: "string \<Rightarrow> py_error option"

definition open_read :: "filesystem \<Rightarrow> string \<Rightarrow> py_error + string" where
  "open_read fs path =
     (case node fs path of
        Missing \<Rightarrow> Inl (FileNotFoundError path)
      | Unreadable \<Rightarrow> Inl (PermissionError path)
      | Text s \<Rightarrow> Inr s)"

text \<open>
  The text of a file after it was opened for writing and closed: what was written. A
  file that could not be read still cannot: writing does not change its permissions.
\<close>

definition set_text :: "filesystem \<Rightarrow> string \<Rightarrow> string \<Rightarrow> filesystem" where
  "set_text fs path s =
     fs\<lparr>node := (node fs)(path := (case node fs path of Unreadable \<Rightarrow> Unreadable | _ \<Rightarrow> Text s))\<rparr>"

text \<open>
  The \<open>json\<close> module is a library: its parser and its printer are parameters of the
  model. \<open>loads\<close> raises (\<open>Inl\<close>) on a text that is not JSON. \<open>json.dump\<close> writes
  the text of a value to the open file piece by piece, and the file (opened with the
  encoding \<open>utf8\<close>) raises \<open>UnicodeEncodeError\<close> on a piece that it cannot encode, such as
  a string with a lone surrogate: \<open>dump\<close> gives the whole text, or the exception and the
  text written before it.
\<close>

datatype dump_result = Written string | Raised py_error string

record json_module =
  loads :: "string \<Rightarrow> py_error + json"
  dump :: "json \<Rightarrow> dump_result"

text \<open>
  The block that the script uses for every write:
  \<^verbatim>\<open>
      with open(path, "w", encoding="utf8") as fh:
          json.dump(obj, fh, indent=2, ensure_ascii=False)
  \<close>
  When \<open>open\<close> raises, the files are as before. Otherwise the file is emptied, and an
  exception of \<open>json.dump\<close> leaves it with the text written so far. The result is the
  exception, if any, and the files afterwards.
\<close>

definition write_json ::
  "json_module \<Rightarrow> filesystem \<Rightarrow> string \<Rightarrow> json \<Rightarrow> py_error option \<times> filesystem" where
  "write_json js fs path obj =
     (case unwritable fs path of
        Some e \<Rightarrow> (Some e, fs)
      | None \<Rightarrow>
          (case dump js obj of
             Written s \<Rightarrow> (None, set_text fs path s)
           | Raised e s \<Rightarrow> (Some e, set_text fs path s)))"

section \<open>History\<close>

definition HISTORY_LOCAL :: string where
  "HISTORY_LOCAL = ''history.json''"

definition HISTORY_MAX :: int where
  "HISTORY_MAX = 200"

text \<open>
  \<^verbatim>\<open>
  def read_local_history(path=HISTORY_LOCAL):
      try:
          with open(path, "r", encoding="utf8") as fh:
              return json.load(fh)
      except Exception:
          return []
  \<close>
\<close>

definition read_local_history :: "json_module \<Rightarrow> filesystem \<Rightarrow> string \<Rightarrow> json" where
  "read_local_history js fs path =
     (case open_read fs path of
        Inl e \<Rightarrow> JArr []
      | Inr s \<Rightarrow> (case loads js s of Inl e \<Rightarrow> JArr [] | Inr v \<Rightarrow> v))"

text \<open>\<open>d[k]\<close> on a \<open>dict\<close>: the value of the key, or \<open>KeyError\<close>.\<close>

definition getitem :: "(string \<times> json) list \<Rightarrow> string \<Rightarrow> py_error + json" where
  "getitem d k = (case map_of d k of None \<Rightarrow> Inl (KeyError k) | Some v \<Rightarrow> Inr v)"

text \<open>
  The slice \<open>xs[start:]\<close>: a negative start counts from the end and is clipped at the
  front of the list, a start beyond the end gives the empty list.
\<close>

definition slice_from :: "'a list \<Rightarrow> int \<Rightarrow> 'a list" where
  "slice_from xs start =
     (let n = int (length xs);
          i = (if start < 0 then max (n + start) 0 else min start n)
      in drop (nat i) xs)"

text \<open>
  \<^verbatim>\<open>
  def append_history(local_path, current_obj, maxlen=HISTORY_MAX):
      hist = read_local_history(local_path)
      hist.append({
          "ts": current_obj["timestamp_utc"],
          "pm25": current_obj["pm25_ugm3"],
          "temp": current_obj["temperature_c"]
      })
      hist = hist[-maxlen:]
      with open(local_path, "w", encoding="utf8") as fh:
          json.dump(hist, fh, indent=2, ensure_ascii=False)
      return hist
  \<close>
  Only a \<open>list\<close> has the method \<open>append\<close>: on every other loaded value the attribute
  lookup raises \<open>AttributeError\<close>, before the new entry is built. An exception of the
  write leaves the function too. The result is the returned list (or the exception) and
  the files afterwards.
\<close>

definition append_history ::
  "json_module \<Rightarrow> filesystem \<Rightarrow> string \<Rightarrow> (string \<times> json) list \<Rightarrow> int \<Rightarrow>
     (py_error + json list) \<times> filesystem" where
  "append_history js fs local_path current_obj maxlen =
     (case read_local_history js fs local_path of
        JArr hist \<Rightarrow>
          (case getitem current_obj ''timestamp_utc'' of
             Inl e \<Rightarrow> (Inl e, fs)
           | Inr ts \<Rightarrow>
          (case getitem current_obj ''pm25_ugm3'' of
             Inl e \<Rightarrow> (Inl e, fs)
           | Inr pm25 \<Rightarrow>
          (case getitem current_obj ''temperature_c'' of
             Inl e \<Rightarrow> (Inl e, fs)
           | Inr temp \<Rightarrow>
               (let hist1 = hist @ [JObj [(''ts'', ts), (''pm25'', pm25), (''temp'', temp)]];
                    hist2 = slice_from hist1 (- maxlen)
                in case write_json js fs local_path (JArr hist2) of
                     (None, fs1) \<Rightarrow> (Inr hist2, fs1)
                   | (Some e, fs1) \<Rightarrow> (Inl e, fs1)))))
      | _ \<Rightarrow> (Inl (AttributeError ''append''), fs))"

text \<open>Whether a loaded value is a \<open>list\<close>.\<close>

fun is_list :: "json \<Rightarrow> bool" where
  "is_list (JArr xs) = True"
| "is_list _ = False"

section \<open>The geospatial service\<close>

text \<open>
  The objects of the \<open>ee\<close> client library are descriptions of a computation, built
  on the client and evaluated by the service on \<open>getInfo()\<close>. Each constructor below
  is the method of the library of the same name.
\<close>

datatype ee_geometry = Point "pyfloat list" | Buffer ee_geometry int

datatype ee_date = Date string | Advance ee_date int string

datatype ee_collection =
    ImageCollection string
  | Select ee_collection string
  | FilterBounds ee_collection ee_geometry
  | FilterDate ee_collection ee_date ee_date
  | Sort ee_collection string bool

datatype ee_projection = Projection string | AtScale ee_projection int

datatype ee_image =
    Mean ee_collection
  | First ee_collection
  | SetDefaultProjection ee_image ee_projection

datatype ee_reducer = Reducer_mean

record ee_dictionary =
  image :: ee_image
  reducer :: ee_reducer
  geometry :: ee_geometry
  scale :: int
  bestEffort :: bool
  maxPixels :: pyfloat

text \<open>
  The \<open>dict\<close> that \<open>getInfo()\<close> returns: a band name and its mean, or \<open>None\<close>. A mean
  is kept as the float it is in the arithmetic of the script (a mean that \<open>json\<close> decodes
  as an \<open>int\<close> is converted to that float by \<open>*\<close> and \<open>-\<close>).
\<close>

type_synonym sample = "(string \<times> pyfloat option) list"

section \<open>The remote repository\<close>

text \<open>The calls of the script to the repository, with their arguments.\<close>

datatype gh_call =
    Get_repo string
  | Get_contents string
  | Update_file string string string string
  | Create_file string string string

record contents =
  contents_path :: string
  contents_sha :: string

section \<open>The world of a run\<close>

text \<open>
  What the script reads from outside itself: the \<open>json\<close> module, the environment
  variables, the successive readings of the clock, and the answers of the two remote
  services. An answer of the repository may depend on the calls made before it.
\<close>

record world =
  json :: json_module
  getenv :: "string \<Rightarrow> string option"
  utcnow :: "nat \<Rightarrow> datetime"
  ee_Initialize :: "py_error option"
  getInfo :: "ee_dictionary \<Rightarrow> py_error + sample"
  get_repo :: "string \<Rightarrow> py_error option"
  get_contents :: "gh_call list \<Rightarrow> string \<Rightarrow> py_error + contents"
  update_file :: "gh_call list \<Rightarrow> string \<Rightarrow> string \<Rightarrow> string \<Rightarrow> string \<Rightarrow> py_error option"
  create_file :: "gh_call list \<Rightarrow> string \<Rightarrow> string \<Rightarrow> string \<Rightarrow> py_error option"

text \<open>The lines the script prints.\<close>

datatype message =
    EE_initialized
  | Safe_reduce_mean_failed py_error
  | Local_files_written
  | Updated string
  | Created string
  | Failed_to_upload string py_error
  | All_files_uploaded

text \<open>
  What a run changes: the local files, the printed lines, the reductions sent to the
  geospatial service and the calls made to the repository, in order.
\<close>

record state =
  files :: filesystem
  stdout :: "message list"
  ee_calls :: "ee_dictionary list"
  gh_calls :: "gh_call list"

definition print :: "message \<Rightarrow> state \<Rightarrow> state" where
  "print m st = st\<lparr>stdout := stdout st @ [m]\<rparr>"

section \<open>Configuration\<close>

definition REPO_NAME :: string where
  "REPO_NAME = ''Anfu4354/pm-monitor-data''"

definition OUT_CURRENT :: string where
  "OUT_CURRENT = ''data/current.json''"

definition OUT_ANNUAL_PM25 :: string where
  "OUT_ANNUAL_PM25 = ''data/annual_pm25.json''"

definition OUT_ANNUAL_TEMP :: string where
  "OUT_ANNUAL_TEMP = ''data/annual_temperature.json''"

definition OUT_HISTORY :: string where
  "OUT_HISTORY = ''data/history.json''"

definition LAT :: pyfloat where
  "LAT = float_of_rat (256866 / 10000)"

definition LON :: pyfloat where
  "LON = float_of_rat (- 1003161 / 10000)"

definition POINT :: ee_geometry where
  "POINT = Point [LON, LAT]"

definition BUFFER_M :: int where
  "BUFFER_M = 20000"

definition REDUCE_SCALE :: int where
  "REDUCE_SCALE = 5000"

section \<open>The reducer\<close>

text \<open>
  \<^verbatim>\<open>
  def safe_reduce_mean(img, geometry=POINT, scale=REDUCE_SCALE):
      try:
          proj = ee.Projection("EPSG:4326").atScale(scale)
          img2 = img.setDefaultProjection(proj)
          rr = img2.reduceRegion(
              reducer=ee.Reducer.mean(),
              geometry=geometry,
              scale=scale,
              bestEffort=True,
              maxPixels=1e13
          )
          return rr.getInfo()  # returns dict or {}
      except Exception as e:
          print("... safe_reduce_mean failed:", e)
          return None
  \<close>
  The script calls it with an image only: the call sites below pass the defaults
  \<open>POINT\<close> and \<open>REDUCE_SCALE\<close> that Python fills in. \<open>reduce_region\<close> is the
  description \<open>rr\<close> that the body builds, \<open>getInfo\<close> its evaluation by the service.
\<close>

definition reduce_region :: "ee_image \<Rightarrow> ee_geometry \<Rightarrow> int \<Rightarrow> ee_dictionary" where
  "reduce_region img geom scl =
     (let proj = AtScale (Projection ''EPSG:4326'') scl;
          img2 = SetDefaultProjection img proj
      in \<lparr> image = img2, reducer = Reducer_mean, geometry = geom, scale = scl,
           bestEffort = True, maxPixels = float_of_rat 10000000000000 \<rparr>)"

definition safe_reduce_mean ::
  "world \<Rightarrow> ee_image \<Rightarrow> ee_geometry \<Rightarrow> int \<Rightarrow> state \<Rightarrow> sample option \<times> state" where
  "safe_reduce_mean w img geom scl st =
     (let rr = reduce_region img geom scl;
          st1 = st\<lparr>ee_calls := ee_calls st @ [rr]\<rparr>
      in case getInfo w rr of
           Inr d \<Rightarrow> (Some d, st1)
         | Inl e \<Rightarrow> (None, print (Safe_reduce_mean_failed e) st1))"

section \<open>Unit conversions\<close>

text \<open>\<open>d.get(k)\<close>: the value of the key (which may be \<open>None\<close>), or \<open>None\<close>.\<close>

definition dict_get :: "sample \<Rightarrow> string \<Rightarrow> pyfloat option" where
  "dict_get d k = (case map_of d k of None \<Rightarrow> None | Some v \<Rightarrow> v)"

text \<open>
  \<^verbatim>\<open>
  pm25_now_ug = None
  if pm25_sample_now:
      k = list(pm25_sample_now.keys())[0]
      v = pm25_sample_now.get(k)
      pm25_now_ug = v * 1e9 if v is not None else None
  \<close>
  \<open>None\<close> and the empty \<open>dict\<close> are both false in the test.
\<close>

definition pm25_now_ug :: "sample option \<Rightarrow> pyfloat option" where
  "pm25_now_ug pm25_sample_now =
     (case pm25_sample_now of
        None \<Rightarrow> None
      | Some [] \<Rightarrow> None
      | Some (kv # rest) \<Rightarrow>
          (let k = fst kv; v = dict_get (kv # rest) k
           in case v of Some x \<Rightarrow> Some (fmul x (float_of_rat 1000000000)) | None \<Rightarrow> None))"

text \<open>
  \<^verbatim>\<open>
  temp_now_c = None
  if temp_sample_now:
      k = list(temp_sample_now.keys())[0]
      v = temp_sample_now.get(k)
      temp_now_c = v - 273.15 if v is not None else None
  \<close>
\<close>

definition temp_now_c :: "sample option \<Rightarrow> pyfloat option" where
  "temp_now_c temp_sample_now =
     (case temp_sample_now of
        None \<Rightarrow> None
      | Some [] \<Rightarrow> None
      | Some (kv # rest) \<Rightarrow>
          (let k = fst kv; v = dict_get (kv # rest) k
           in case v of Some x \<Rightarrow> Some (fsub x (float_of_rat (27315 / 100))) | None \<Rightarrow> None))"

text \<open>The annual values repeat the two blocks on the annual samples.\<close>

definition annual_pm25_ug :: "sample option \<Rightarrow> pyfloat option" where
  "annual_pm25_ug annual_pm25_sample =
     (case annual_pm25_sample of
        None \<Rightarrow> None
      | Some [] \<Rightarrow> None
      | Some (kv # rest) \<Rightarrow>
          (let k = fst kv; v = dict_get (kv # rest) k
           in case v of Some x \<Rightarrow> Some (fmul x (float_of_rat 1000000000)) | None \<Rightarrow> None))"

definition annual_temp_c :: "sample option \<Rightarrow> pyfloat option" where
  "annual_temp_c annual_temp_sample =
     (case annual_temp_sample of
        None \<Rightarrow> None
      | Some [] \<Rightarrow> None
      | Some (kv # rest) \<Rightarrow>
          (let k = fst kv; v = dict_get (kv # rest) k
           in case v of Some x \<Rightarrow> Some (fsub x (float_of_rat (27315 / 100))) | None \<Rightarrow> None))"

text \<open>A value that is a float or \<open>None\<close>, as a member of an output document.\<close>

definition float_or_none :: "pyfloat option \<Rightarrow> json" where
  "float_or_none v = (case v of None \<Rightarrow> JNull | Some x \<Rightarrow> JNum x)"

text \<open>
  A reduction that gave no data: no result, an empty \<open>dict\<close>, or \<open>None\<close> for the first
  band.
\<close>

definition no_data :: "sample option \<Rightarrow> bool" where
  "no_data s =
     (case s of
        None \<Rightarrow> True
      | Some [] \<Rightarrow> True
      | Some (kv # rest) \<Rightarrow> dict_get (kv # rest) (fst kv) = None)"

section \<open>The script \<open>update_json.py\<close>\<close>

subsection \<open>1) Current (last 24 h)\<close>

definition cams_nrt :: "ee_date \<Rightarrow> ee_date \<Rightarrow> ee_collection" where
  "cams_nrt ee_24h ee_now =
     FilterDate
       (FilterBounds
          (Select (ImageCollection ''ECMWF/CAMS/NRT'')
             ''particulate_matter_d_less_than_25_um_surface'')
          (Buffer POINT BUFFER_M))
       ee_24h ee_now"

definition era5_hourly :: ee_collection where
  "era5_hourly =
     FilterBounds (Select (ImageCollection ''ECMWF/ERA5_LAND/HOURLY'') ''temperature_2m'')
       (Buffer POINT BUFFER_M)"

definition latest_temp_img :: ee_image where
  "latest_temp_img = First (Sort era5_hourly ''system:time_start'' False)"

text \<open>
  \<^verbatim>\<open>
  current_json = {
      "timestamp_utc": now_iso(),
      "pm25_ugm3": pm25_now_ug,
      "temperature_c": temp_now_c
  }
  \<close>
\<close>

definition current_json ::
  "string \<Rightarrow> pyfloat option \<Rightarrow> pyfloat option \<Rightarrow> (string \<times> json) list" where
  "current_json ts pm25 temp =
     [(''timestamp_utc'', JStr ts),
      (''pm25_ugm3'', float_or_none pm25),
      (''temperature_c'', float_or_none temp)]"

text \<open>
  Lines 93 to 128: the first reading of the clock is \<open>now\<close>, the second is the one of
  \<open>now_iso()\<close>. The result is \<open>ee_now\<close> and \<open>current_json\<close>.
\<close>

definition section_1_current ::
  "world \<Rightarrow> state \<Rightarrow> (ee_date \<times> (string \<times> json) list) \<times> state" where
  "section_1_current w st =
     (let now = utcnow w 0;
          ee_now = Date (isoformat now);
          ee_24h = Advance ee_now (- 1) ''day'';
          pm25_img_now = Mean (cams_nrt ee_24h ee_now);
          (pm25_sample_now, st1) = safe_reduce_mean w pm25_img_now POINT REDUCE_SCALE st;
          (temp_sample_now, st2) = safe_reduce_mean w latest_temp_img POINT REDUCE_SCALE st1
      in ((ee_now,
           current_json (now_iso (utcnow w 1)) (pm25_now_ug pm25_sample_now)
             (temp_now_c temp_sample_now)),
          st2))"

subsection \<open>2) Annual (last 365 days)\<close>

definition cams_365 :: "ee_date \<Rightarrow> ee_date \<Rightarrow> ee_collection" where
  "cams_365 ee_1y ee_now =
     FilterDate
       (FilterBounds
          (Select (ImageCollection ''ECMWF/CAMS/NRT'')
             ''particulate_matter_d_less_than_25_um_surface'')
          (Buffer POINT BUFFER_M))
       ee_1y ee_now"

definition era5_365 :: "ee_date \<Rightarrow> ee_date \<Rightarrow> ee_collection" where
  "era5_365 ee_1y ee_now =
     FilterDate
       (FilterBounds (Select (ImageCollection ''ECMWF/ERA5_LAND/HOURLY'') ''temperature_2m'')
          (Buffer POINT BUFFER_M))
       ee_1y ee_now"

definition annual_pm25_json :: "pyfloat option \<Rightarrow> string \<Rightarrow> (string \<times> json) list" where
  "annual_pm25_json pm25 ts =
     [(''pm25_ugm3'', float_or_none pm25),
      (''dataset'', JStr ''CAMS NRT (annual mean over last 365 days)''),
      (''generated_utc'', JStr ts)]"

definition annual_temp_json :: "pyfloat option \<Rightarrow> string \<Rightarrow> (string \<times> json) list" where
  "annual_temp_json temp ts =
     [(''temperature_c'', float_or_none temp),
      (''dataset'', JStr ''ERA5-Land (annual mean over last 365 days)''),
      (''generated_utc'', JStr ts)]"

text \<open>
  Lines 133 to 173; the third and fourth readings of the clock are the two calls of
  \<open>now_iso()\<close>. The result is \<open>annual_pm25_json\<close> and \<open>annual_temp_json\<close>.
\<close>

definition section_2_annual ::
  "world \<Rightarrow> ee_date \<Rightarrow> state \<Rightarrow> ((string \<times> json) list \<times> (string \<times> json) list) \<times> state" where
  "section_2_annual w ee_now st =
     (let ee_1y = Advance ee_now (- 365) ''day'';
          cams_365_mean = Mean (cams_365 ee_1y ee_now);
          (annual_pm25_sample, st1) = safe_reduce_mean w cams_365_mean POINT REDUCE_SCALE st;
          pm25_doc = annual_pm25_json (annual_pm25_ug annual_pm25_sample) (now_iso (utcnow w 2));
          era5_365_mean = Mean (era5_365 ee_1y ee_now);
          (annual_temp_sample, st2) = safe_reduce_mean w era5_365_mean POINT REDUCE_SCALE st1;
          temp_doc = annual_temp_json (annual_temp_c annual_temp_sample) (now_iso (utcnow w 3))
      in ((pm25_doc, temp_doc), st2))"

text \<open>
  The four reductions that the sections 1 and 2 above describe, in the order in which
  the script evaluates them.
\<close>

definition script_reductions :: "world \<Rightarrow> ee_dictionary list" where
  "script_reductions w =
     (let ee_now = Date (isoformat (utcnow w 0));
          ee_24h = Advance ee_now (- 1) ''day'';
          ee_1y = Advance ee_now (- 365) ''day''
      in [reduce_region (Mean (cams_nrt ee_24h ee_now)) POINT REDUCE_SCALE,
          reduce_region latest_temp_img POINT REDUCE_SCALE,
          reduce_region (Mean (cams_365 ee_1y ee_now)) POINT REDUCE_SCALE,
          reduce_region (Mean (era5_365 ee_1y ee_now)) POINT REDUCE_SCALE])"

subsection \<open>4) Write local files\<close>

text \<open>
  \<^verbatim>\<open>
  def write_local(fname, obj):
      with open(fname, "w", encoding="utf8") as fh:
          json.dump(obj, fh, indent=2, ensure_ascii=False)
  \<close>
\<close>

definition write_local :: "world \<Rightarrow> string \<Rightarrow> json \<Rightarrow> state \<Rightarrow> py_error option \<times> state" where
  "write_local w fname obj st =
     (case write_json (json w) (files st) fname obj of
        (r, fs1) \<Rightarrow> (r, st\<lparr>files := fs1\<rparr>))"

subsection \<open>5) Upload to GitHub\<close>

text \<open>\<open>os.path.basename\<close>: what follows the last slash.\<close>

definition basename :: "string \<Rightarrow> string" where
  "basename p = rev (takeWhile (\<lambda>c. c \<noteq> CHR ''/'') (rev p))"

definition call :: "gh_call \<Rightarrow> state \<Rightarrow> state" where
  "call c st = st\<lparr>gh_calls := gh_calls st @ [c]\<rparr>"

text \<open>
  The handler of \<open>upload_json\<close>, entered when \<open>get_contents\<close> or \<open>update_file\<close> raises:
  \<^verbatim>\<open>
        try:
            repo.create_file(path_in_repo, f"Create {os.path.basename(path_in_repo)}", content)
            print("... Created", path_in_repo)
        except Exception as e2:
            print("... Failed to upload", path_in_repo, ":", e2)
  \<close>
\<close>

definition upload_json_except :: "world \<Rightarrow> string \<Rightarrow> string \<Rightarrow> state \<Rightarrow> state" where
  "upload_json_except w path_in_repo content st =
     (let message = ''Create '' @ basename path_in_repo;
          st1 = call (Create_file path_in_repo message content) st
      in case create_file w (gh_calls st) path_in_repo message content of
           None \<Rightarrow> print (Created path_in_repo) st1
         | Some e2 \<Rightarrow> print (Failed_to_upload path_in_repo e2) st1)"

text \<open>
  \<^verbatim>\<open>
  def upload_json(path_in_repo, local_file):
      with open(local_file, "r", encoding="utf8") as fh:
          content = fh.read()
      try:
          contents = repo.get_contents(path_in_repo)
          repo.update_file(contents.path, f"Auto-update {os.path.basename(path_in_repo)}",
                           content, contents.sha)
          print("... Updated", path_in_repo)
      except Exception as e:
          (the handler above)
  \<close>
  Reading the local file is outside the \<open>try\<close>: its exception leaves the function.
\<close>

definition upload_json :: "world \<Rightarrow> string \<Rightarrow> string \<Rightarrow> state \<Rightarrow> py_error option \<times> state" where
  "upload_json w path_in_repo local_file st =
     (case open_read (files st) local_file of
        Inl e \<Rightarrow> (Some e, st)
      | Inr content \<Rightarrow>
          (let st1 = call (Get_contents path_in_repo) st
           in case get_contents w (gh_calls st) path_in_repo of
                Inl e \<Rightarrow> (None, upload_json_except w path_in_repo content st1)
              | Inr c \<Rightarrow>
                  (let message = ''Auto-update '' @ basename path_in_repo;
                       st2 = call (Update_file (contents_path c) message content (contents_sha c)) st1
                   in case update_file w (gh_calls st1) (contents_path c) message content
                             (contents_sha c) of
                        None \<Rightarrow> (None, print (Updated path_in_repo) st2)
                      | Some e \<Rightarrow> (None, upload_json_except w path_in_repo content st2))))"

text \<open>Running statements in sequence: an exception ends the run.\<close>

definition and_then ::
  "py_error option \<times> state \<Rightarrow> (state \<Rightarrow> py_error option \<times> state) \<Rightarrow> py_error option \<times> state" where
  "and_then r f = (case fst r of Some e \<Rightarrow> r | None \<Rightarrow> f (snd r))"

text \<open>
  Lines 216 to 242: the token is read after the local files are written, and
  \<open>not TOKEN\<close> holds for a missing variable and for an empty one.
\<close>

definition section_5_upload :: "world \<Rightarrow> state \<Rightarrow> py_error option \<times> state" where
  "section_5_upload w st =
     (case getenv w ''GITHUB_TOKEN'' of
        None \<Rightarrow> (Some (RuntimeError ''GITHUB_TOKEN environment variable not set.''), st)
      | Some TOKEN \<Rightarrow>
          if TOKEN = [] then
            (Some (RuntimeError ''GITHUB_TOKEN environment variable not set.''), st)
          else
            (let st1 = call (Get_repo REPO_NAME) st
             in case get_repo w REPO_NAME of
                  Some e \<Rightarrow> (Some e, st1)
                | None \<Rightarrow>
                    and_then (upload_json w OUT_CURRENT ''current.json'' st1) (\<lambda>st2.
                    and_then (upload_json w OUT_ANNUAL_PM25 ''annual_pm25.json'' st2) (\<lambda>st3.
                    and_then (upload_json w OUT_ANNUAL_TEMP ''annual_temperature.json'' st3) (\<lambda>st4.
                    and_then (upload_json w OUT_HISTORY HISTORY_LOCAL st4) (\<lambda>st5.
                    (None, print All_files_uploaded st5)))))))"

subsection \<open>The whole script\<close>

text \<open>
  The message of line 34 starts with the cross mark U+274C, three bytes in UTF-8, and a
  space.
\<close>

definition EE_failed_message :: string where
  "EE_failed_message =
     [CHR 0xE2, CHR 0x9D, CHR 0x8C] @
     '' EE failed to initialize. Did you run authenticate.py locally?''"

text \<open>
  Lines 30 to 211, the sections before the upload: the session, the two documents of
  section 1 and 2, the history of section 3 (appended and written), and the four local
  files of section 4. The result is the exception that ended them, if any, and the state
  they reached.
\<close>

definition sections_1_to_4 :: "world \<Rightarrow> filesystem \<Rightarrow> py_error option \<times> state" where
  "sections_1_to_4 w fs =
     (let st0 = \<lparr> files = fs, stdout = [], ee_calls = [], gh_calls = [] \<rparr>
      in case ee_Initialize w of
           Some e \<Rightarrow> (Some (RuntimeError EE_failed_message), st0)
         | None \<Rightarrow>
             (let st1 = print EE_initialized st0;
                  ((ee_now, current), st2) = section_1_current w st1;
                  ((annual_pm25, annual_temp), st3) = section_2_annual w ee_now st2;
                  (history, fs1) = append_history (json w) (files st3) HISTORY_LOCAL current HISTORY_MAX;
                  st4 = st3\<lparr>files := fs1\<rparr>
              in case history of
                   Inl e \<Rightarrow> (Some e, st4)
                 | Inr history_json \<Rightarrow>
                     and_then (write_local w ''current.json'' (JObj current) st4) (\<lambda>st5.
                     and_then (write_local w ''annual_pm25.json'' (JObj annual_pm25) st5) (\<lambda>st6.
                     and_then (write_local w ''annual_temperature.json'' (JObj annual_temp) st6) (\<lambda>st7.
                     and_then (write_local w HISTORY_LOCAL (JArr history_json) st7) (\<lambda>st8.
                     (None, print Local_files_written st8)))))))"

text \<open>A run starts from the local files; the token is read only in section 5.\<close>

definition update_json :: "world \<Rightarrow> filesystem \<Rightarrow> py_error option \<times> state" where
  "update_json w fs = and_then (sections_1_to_4 w fs) (section_5_upload w)"

section \<open>The script \<open>authenticate.py\<close>\<close>

text \<open>
  \<^verbatim>\<open>
  service_account = os.environ["EE_SERVICE_ACCOUNT"]
  creds = ServiceAccountCredentials(email=service_account, key_file="ee-key.json")
  ee.Initialize(credentials=creds)
  print("Earth Engine authentication successful.")
  \<close>
  Its world is the environment, the constructor of the credentials (which reads the key
  file and may raise) and the initialisation of the session.
\<close>

datatype credentials = Credentials string string

record auth_world =
  environ :: "string \<Rightarrow> string option"
  ServiceAccountCredentials :: "string \<Rightarrow> string \<Rightarrow> py_error option"
  Initialize :: "credentials \<Rightarrow> py_error option"

datatype auth_step =
    Built_credentials string string
  | Initialized credentials
  | Authentication_successful

definition authenticate :: "auth_world \<Rightarrow> py_error option \<times> auth_step list" where
  "authenticate w =
     (case environ w ''EE_SERVICE_ACCOUNT'' of
        None \<Rightarrow> (Some (KeyError ''EE_SERVICE_ACCOUNT''), [])
      | Some service_account \<Rightarrow>
          (case ServiceAccountCredentials w service_account ''ee-key.json'' of
             Some e \<Rightarrow> (Some e, [])
           | None \<Rightarrow>
               (let creds = Credentials service_account ''ee-key.json'';
                    steps = [Built_credentials service_account ''ee-key.json'']
                in case Initialize w creds of
                     Some e \<Rightarrow> (Some e, steps)
                   | None \<Rightarrow> (None, steps @ [Initialized creds, Authentication_successful]))))"

section \<open>Calls that write a document\<close>

text \<open>Whether a call to the repository is an update or a creation with the given text.\<close>

fun writes_document :: "string \<Rightarrow> gh_call \<Rightarrow> bool" where
  "writes_document content (Update_file p m c sha) = (c = content)"
| "writes_document content (Create_file p m c) = (c = content)"
| "writes_document content (Get_contents p) = False"
| "writes_document content (Get_repo name) = False"

section \<open>The timestamp format\<close>

text \<open>
  An ISO 8601 timestamp in UTC, in the extended format: \<open>YYYY-MM-DDThh:mm:ss\<close>, an
  optional fraction of a second, and one designator of the zone, \<open>Z\<close> or \<open>+00:00\<close>.
  Only the shape is checked, not the ranges of the fields.
\<close>

definition is_digit :: "char \<Rightarrow> bool" where
  "is_digit c = (c \<in> set ''0123456789'')"

definition iso8601_local :: "string \<Rightarrow> bool" where
  "iso8601_local s =
     (list_all (\<lambda>c. is_digit c \<or> c \<in> set ''-:T.'') s \<and>
      map (\<lambda>c. if is_digit c then CHR ''d'' else c) (take 19 s) = ''dddd-dd-ddTdd:dd:dd'' \<and>
      (drop 19 s = [] \<or>
       (take 1 (drop 19 s) = ''.'' \<and> drop 20 s \<noteq> [] \<and> list_all is_digit (drop 20 s))))"

definition iso8601_utc :: "string \<Rightarrow> bool" where
  "iso8601_utc s =
     (s \<noteq> [] \<and>
      (if last s = CHR ''Z'' then iso8601_local (butlast s)
       else drop (length s - 6) s = ''+00:00'' \<and> iso8601_local (take (length s - 6) s)))"

section \<open>Example inputs\<close>

text \<open>
  A history of 200 entries and its text, \<open>[0, 1, 2, \<dots>, 199]\<close> in full; a parser that
  accepts this text and two more and rejects every other, with a printer that writes the
  same text for every value; a printer that raises after the first pieces; and states of
  the local files, the last one with a directory in the place of the history.
\<close>

definition history_200 :: "json list" where
  "history_200 = map (\<lambda>n. JInt (int n)) [0..<200]"

definition history_200_text :: string where
  "history_200_text = ''['' @ concat (map (\<lambda>n. str_nat n @ '', '') [0..<199]) @ ''199]''"

definition js_example :: json_module where
  "js_example =
     \<lparr> loads = (\<lambda>s. if s = history_200_text then Inr (JArr history_200)
                      else if s = ''{}'' then Inr (JObj [])
                      else if s = ''[]'' then Inr (JArr [])
                      else Inl JSONDecodeError),
       dump = (\<lambda>v. Written ''[]'') \<rparr>"

definition js_surrogate :: json_module where
  "js_surrogate = js_example\<lparr>dump := (\<lambda>v. Raised (UnicodeEncodeError ''utf-8'') ''[{'')\<rparr>"

definition fs_missing :: filesystem where
  "fs_missing = \<lparr> node = (\<lambda>p. Missing), unwritable = (\<lambda>p. None) \<rparr>"

definition fs_unreadable :: filesystem where
  "fs_unreadable =
     \<lparr> node = (\<lambda>p. if p = ''history.json'' then Unreadable else Missing),
       unwritable = (\<lambda>p. None) \<rparr>"

definition fs_corrupt :: filesystem where
  "fs_corrupt =
     \<lparr> node = (\<lambda>p. if p = ''history.json'' then Text ''[{'' else Missing),
       unwritable = (\<lambda>p. None) \<rparr>"

definition fs_object :: filesystem where
  "fs_object =
     \<lparr> node = (\<lambda>p. if p = ''history.json'' then Text ''{}'' else Missing),
       unwritable = (\<lambda>p. None) \<rparr>"

definition fs_full :: filesystem where
  "fs_full =
     \<lparr> node = (\<lambda>p. if p = ''history.json'' then Text history_200_text else Missing),
       unwritable = (\<lambda>p. None) \<rparr>"

definition fs_directory :: filesystem where
  "fs_directory =
     \<lparr> node = (\<lambda>p. if p = ''history.json'' then Unreadable else Missing),
       unwritable = (\<lambda>p. if p = ''history.json'' then Some (IsADirectoryError p) else None) \<rparr>"

definition now_example :: datetime where
  "now_example =
     \<lparr> year = 2026, month = 11, day = 3, hour = 14, minute = 47, second = 0,
       microsecond = 123456 \<rparr>"

text \<open>
  A world in which every reduction fails, the token is set (and no other variable) and
  the repository holds no document and refuses every creation; the same world without
  the token, with the empty \<open>dict\<close> for every reduction, and with a repository that holds
  every document.
\<close>

definition world_example :: world where
  "world_example =
     \<lparr> json = js_example,
       getenv = (\<lambda>k. if k = ''GITHUB_TOKEN'' then Some ''t0ken'' else None),
       utcnow = (\<lambda>n. now_example),
       ee_Initialize = None,
       getInfo = (\<lambda>rr. Inl (EEException ''no data'')),
       get_repo = (\<lambda>name. None),
       get_contents = (\<lambda>calls p. Inl (GithubException ''404'')),
       update_file = (\<lambda>calls p m c sha. None),
       create_file = (\<lambda>calls p m c. Some (GithubException ''403'')) \<rparr>"

definition world_no_token :: world where
  "world_no_token = world_example\<lparr>getenv := (\<lambda>k. None)\<rparr>"



definition auth_world_no_secret :: auth_world where
  "auth_world_no_secret =
     \<lparr> environ = (\<lambda>k. None),
       ServiceAccountCredentials = (\<lambda>email key_file. None),
       Initialize = (\<lambda>creds. None) \<rparr>"

definition state_0 :: state where
  "state_0 = \<lparr> files = fs_missing, stdout = [], ee_calls = [], gh_calls = [] \<rparr>"


section \<open>The history\<close>

lemma history_200_text_prefix: "\<exists>r. history_200_text = ''[0, '' @ r"
  by (simp add: history_200_text_def upt_conv_Cons [of 0 199] str_nat.simps digit_def)

lemma history_200_text_neq:
  "history_200_text \<noteq> ''[{''" "history_200_text \<noteq> ''{}''" "history_200_text \<noteq> ''[]''"
proof -
  obtain r where r: "history_200_text = ''[0, '' @ r"
    using history_200_text_prefix by blast
  show "history_200_text \<noteq> ''[{''" "history_200_text \<noteq> ''{}''" "history_200_text \<noteq> ''[]''"
    by (simp_all add: r)
qed

lemma js_example_loads:
  "loads js_example ''[{'' = Inl JSONDecodeError"
  "loads js_example ''{}'' = Inr (JObj [])"
  "loads js_example history_200_text = Inr (JArr history_200)"
  using history_200_text_neq by (auto simp: js_example_def)

lemma slice_from_last:
  "0 < m \<Longrightarrow> slice_from xs (- m) = drop (length xs - nat m) xs"
  by (auto simp: slice_from_def Let_def max_def intro!: arg_cong2 [where f = drop])

lemma slice_from_200:
  "slice_from (hist @ [e]) (- HISTORY_MAX) = drop (length hist + 1 - 200) (hist @ [e])"
  by (simp add: HISTORY_MAX_def slice_from_last)

text \<open>
  Claim C7. Whatever the state of the local history file, missing, unreadable, or holding
  a text that the parser rejects, \<open>read_local_history\<close> returns the empty list. Its result
  is a value in every case: no exception leaves the function.
\<close>

theorem read_local_history_fallback:
  assumes "node fs path = Missing \<or> node fs path = Unreadable \<or>
           (\<exists>s e. node fs path = Text s \<and> loads js s = Inl e)"
  shows "read_local_history js fs path = JArr []"
  using assms by (auto simp: read_local_history_def open_read_def)

theorem read_local_history_fallback_witness:
  "read_local_history js_example fs_missing ''history.json'' = JArr [] \<and>
   read_local_history js_example fs_unreadable ''history.json'' = JArr [] \<and>
   read_local_history js_example fs_corrupt ''history.json'' = JArr []"
  using read_local_history_fallback [where fs = fs_missing and path = "''history.json''" and js = js_example]
    read_local_history_fallback [where fs = fs_unreadable and path = "''history.json''" and js = js_example]
    read_local_history_fallback [where fs = fs_corrupt and path = "''history.json''" and js = js_example]
  by (simp add: fs_missing_def fs_unreadable_def fs_corrupt_def js_example_loads)

text \<open>
  Claim C10. When the local history file holds valid JSON whose top-level value is not an
  array, \<open>read_local_history\<close> returns the parsed value unchanged, not the empty list, and
  \<open>append_history\<close> on it is not guarded: the lookup of \<open>append\<close> raises
  \<open>AttributeError\<close> and the file is left as it was.
\<close>

theorem read_local_history_not_list:
  assumes "node fs path = Text s" and "loads js s = Inr v" and "\<not> is_list v"
  shows "read_local_history js fs path = v \<and> v \<noteq> JArr [] \<and>
         append_history js fs path obj maxlen = (Inl (AttributeError ''append''), fs)"
proof -
  have r: "read_local_history js fs path = v"
    using assms by (simp add: read_local_history_def open_read_def)
  from assms(3) show ?thesis
    unfolding append_history_def r by (cases v) simp_all
qed

theorem read_local_history_not_list_witness:
  "read_local_history js_example fs_object ''history.json'' = JObj [] \<and>
   append_history js_example fs_object ''history.json'' (current_json ''T1'' None None) 200 =
     (Inl (AttributeError ''append''), fs_object)"
  using read_local_history_not_list [where fs = fs_object and path = "''history.json''"
      and js = js_example and s = "''{}''" and v = "JObj []"
      and obj = "current_json ''T1'' None None" and maxlen = 200]
  by (simp add: fs_object_def js_example_loads)

lemma write_json_simps:
  "unwritable fs path = Some e \<Longrightarrow> write_json js fs path obj = (Some e, fs)"
  "unwritable fs path = None \<Longrightarrow> dump js obj = Written s \<Longrightarrow>
     write_json js fs path obj = (None, set_text fs path s)"
  "unwritable fs path = None \<Longrightarrow> dump js obj = Raised e s \<Longrightarrow>
     write_json js fs path obj = (Some e, set_text fs path s)"
  by (simp_all add: write_json_def)

lemma set_text_simps [simp]:
  "unwritable (set_text fs p s) = unwritable fs"
  "node (set_text fs p s) q =
     (if q = p then (case node fs p of Unreadable \<Rightarrow> Unreadable | _ \<Rightarrow> Text s) else node fs q)"
  by (simp_all add: set_text_def)

lemma append_history_list:
  assumes "read_local_history js fs local_path = JArr hist"
    and "map_of current_obj ''timestamp_utc'' = Some ts"
    and "map_of current_obj ''pm25_ugm3'' = Some pm25"
    and "map_of current_obj ''temperature_c'' = Some temp"
    and "new = drop (length hist + 1 - 200)
                 (hist @ [JObj [(''ts'', ts), (''pm25'', pm25), (''temp'', temp)]])"
  shows "append_history js fs local_path current_obj HISTORY_MAX =
     (case write_json js fs local_path (JArr new) of
        (None, fs1) \<Rightarrow> (Inr new, fs1)
      | (Some e, fs1) \<Rightarrow> (Inl e, fs1))"
proof -
  have "slice_from (hist @ [JObj [(''ts'', ts), (''pm25'', pm25), (''temp'', temp)]])
      (- HISTORY_MAX) = new"
    unfolding assms(5) by (rule slice_from_200)
  then show ?thesis
    using assms(1-4)
    by (simp add: append_history_def getitem_def Let_def split: prod.splits option.splits)
qed

text \<open>
  Claim C1, as the code has it. On every loaded history list, \<open>append_history\<close> with the
  capacity of 200 builds the last 200 elements of the list extended by the new triple: a
  list of length at most 200 whose last element is the new triple; on a full list of 200
  entries it has 200 entries, the first being the former second and the last the new one;
  on the empty list it is the one-element list of the new triple. The function returns
  this list, and the file holds its text, when the file can be opened for writing and
  \<open>json.dump\<close> writes the list. When \<open>open\<close> raises, that exception leaves the
  function and the files are as before; when \<open>json.dump\<close> raises, that exception leaves
  the function and the file holds the text written before it.
\<close>

theorem append_history_bounded:
  assumes "read_local_history js fs local_path = JArr hist"
    and "map_of current_obj ''timestamp_utc'' = Some ts"
    and "map_of current_obj ''pm25_ugm3'' = Some pm25"
    and "map_of current_obj ''temperature_c'' = Some temp"
  shows "\<exists>new.
           new = drop (length hist + 1 - 200)
                   (hist @ [JObj [(''ts'', ts), (''pm25'', pm25), (''temp'', temp)]]) \<and>
           length new \<le> 200 \<and>
           new \<noteq> [] \<and>
           last new = JObj [(''ts'', ts), (''pm25'', pm25), (''temp'', temp)] \<and>
           (length hist = 200 \<longrightarrow>
              length new = 200 \<and> hd new = hist ! 1 \<and>
              new = tl hist @ [JObj [(''ts'', ts), (''pm25'', pm25), (''temp'', temp)]]) \<and>
           (hist = [] \<longrightarrow> new = [JObj [(''ts'', ts), (''pm25'', pm25), (''temp'', temp)]]) \<and>
           (\<forall>out. unwritable fs local_path = None \<and> dump js (JArr new) = Written out \<longrightarrow>
              append_history js fs local_path current_obj HISTORY_MAX =
                (Inr new, set_text fs local_path out)) \<and>
           (\<forall>e. unwritable fs local_path = Some e \<longrightarrow>
              append_history js fs local_path current_obj HISTORY_MAX = (Inl e, fs)) \<and>
           (\<forall>e part. unwritable fs local_path = None \<and> dump js (JArr new) = Raised e part \<longrightarrow>
              append_history js fs local_path current_obj HISTORY_MAX =
                (Inl e, set_text fs local_path part))"
proof -
  let ?entry = "JObj [(''ts'', ts), (''pm25'', pm25), (''temp'', temp)]"
  let ?new = "drop (length hist + 1 - 200) (hist @ [?entry])"
  note run = append_history_list [OF assms refl]
  have full: "length ?new = 200 \<and> hd ?new = hist ! 1 \<and> ?new = tl hist @ [?entry]"
    if h: "length hist = 200"
  proof -
    have n: "?new = tl hist @ [?entry]"
      using h by (cases hist) simp_all
    moreover have "hd (tl hist @ [?entry]) = hist ! 1"
      using h by (cases hist; cases "tl hist") simp_all
    ultimately show ?thesis using h by simp
  qed
  have emp: "?new = [?entry]" if "hist = []" using that by simp
  have ok: "append_history js fs local_path current_obj HISTORY_MAX =
      (Inr ?new, set_text fs local_path out)"
    if "unwritable fs local_path = None \<and> dump js (JArr ?new) = Written out" for out
    using that by (simp add: run write_json_simps)
  have refused: "append_history js fs local_path current_obj HISTORY_MAX = (Inl e, fs)"
    if "unwritable fs local_path = Some e" for e
    using that by (simp add: run write_json_simps)
  have trunc: "append_history js fs local_path current_obj HISTORY_MAX =
      (Inl e, set_text fs local_path part)"
    if "unwritable fs local_path = None \<and> dump js (JArr ?new) = Raised e part" for e part
    using that by (simp add: run write_json_simps)
  have len: "length ?new \<le> 200" by simp
  have ne: "?new \<noteq> []" by simp
  have lst: "last ?new = ?entry" by simp
  show ?thesis
    using len ne lst full emp ok refused trunc by blast
qed

theorem append_history_bounded_witness:
  "append_history js_example fs_full ''history.json'' (current_json ''T1'' None None) HISTORY_MAX =
     (Inr (tl history_200 @ [JObj [(''ts'', JStr ''T1''), (''pm25'', JNull), (''temp'', JNull)]]),
      set_text fs_full ''history.json'' ''[]'') \<and>
   append_history js_example fs_missing ''history.json'' (current_json ''T1'' None None) HISTORY_MAX =
     (Inr [JObj [(''ts'', JStr ''T1''), (''pm25'', JNull), (''temp'', JNull)]],
      set_text fs_missing ''history.json'' ''[]'') \<and>
   append_history js_example fs_directory ''history.json'' (current_json ''T1'' None None) HISTORY_MAX =
     (Inl (IsADirectoryError ''history.json''), fs_directory) \<and>
   append_history js_surrogate fs_missing ''history.json'' (current_json ''T1'' None None) HISTORY_MAX =
     (Inl (UnicodeEncodeError ''utf-8''), set_text fs_missing ''history.json'' ''[{'')"
proof -
  have full: "read_local_history js_example fs_full ''history.json'' = JArr history_200"
    by (simp add: read_local_history_def open_read_def fs_full_def js_example_loads)
  have empty: "read_local_history js_example fs_missing ''history.json'' = JArr []"
    by (simp add: read_local_history_def open_read_def fs_missing_def)
  have dir: "read_local_history js_example fs_directory ''history.json'' = JArr []"
    by (simp add: read_local_history_def open_read_def fs_directory_def)
  have sur: "read_local_history js_surrogate fs_missing ''history.json'' = JArr []"
    by (simp add: read_local_history_def open_read_def fs_missing_def)
  have k1: "map_of (current_json ''T1'' None None) ''timestamp_utc'' = Some (JStr ''T1'')"
    and k2: "map_of (current_json ''T1'' None None) ''pm25_ugm3'' = Some JNull"
    and k3: "map_of (current_json ''T1'' None None) ''temperature_c'' = Some JNull"
    by (simp_all add: current_json_def float_or_none_def)
  have len: "length history_200 = 200" by (simp add: history_200_def)
  have w: "unwritable fs_full ''history.json'' = None" "unwritable fs_missing ''history.json'' = None"
    "unwritable fs_directory ''history.json'' = Some (IsADirectoryError ''history.json'')"
    "dump js_example v = Written ''[]''" "dump js_surrogate v = Raised (UnicodeEncodeError ''utf-8'') ''[{''"
    for v
    by (simp_all add: fs_full_def fs_missing_def fs_directory_def js_example_def js_surrogate_def)
  show ?thesis
    using append_history_bounded [OF full k1 k2 k3] append_history_bounded [OF empty k1 k2 k3]
      append_history_bounded [OF dir k1 k2 k3] append_history_bounded [OF sur k1 k2 k3] len w
    by auto
qed

text \<open>
  The claim C1 as stated has \<open>append_history\<close> return a list on every loaded history.
  With a directory in the place of the history file, the load gives the empty list and
  the write raises: no list is returned.
\<close>

theorem append_history_write_refused:
  "read_local_history js_example fs_directory ''history.json'' = JArr [] \<and>
   fst (append_history js_example fs_directory ''history.json'' (current_json ''T1'' None None)
          HISTORY_MAX) = Inl (IsADirectoryError ''history.json'') \<and>
   \<not> (\<forall>js fs local_path current_obj.
        is_list (read_local_history js fs local_path) \<and>
        (\<exists>ts pm25 temp. current_obj = current_json ts pm25 temp) \<longrightarrow>
        (\<exists>new. fst (append_history js fs local_path current_obj HISTORY_MAX) = Inr new))"
proof -
  have dir: "read_local_history js_example fs_directory ''history.json'' = JArr []"
    by (simp add: read_local_history_def open_read_def fs_directory_def)
  have k: "map_of (current_json ''T1'' None None) ''timestamp_utc'' = Some (JStr ''T1'')"
    "map_of (current_json ''T1'' None None) ''pm25_ugm3'' = Some JNull"
    "map_of (current_json ''T1'' None None) ''temperature_c'' = Some JNull"
    by (simp_all add: current_json_def float_or_none_def)
  have u: "unwritable fs_directory ''history.json'' = Some (IsADirectoryError ''history.json'')"
    by (simp add: fs_directory_def)
  have r: "fst (append_history js_example fs_directory ''history.json'' (current_json ''T1'' None None)
          HISTORY_MAX) = Inl (IsADirectoryError ''history.json'')"
    by (simp add: append_history_list [OF dir k refl] write_json_simps(1) [OF u])
  have "\<not> (is_list (read_local_history js_example fs_directory ''history.json'') \<and>
        (\<exists>ts pm25 temp. current_json ''T1'' None None = current_json ts pm25 temp) \<longrightarrow>
        (\<exists>new. fst (append_history js_example fs_directory ''history.json''
            (current_json ''T1'' None None) HISTORY_MAX) = Inr new))"
    using dir r by auto
  then show ?thesis using dir r by blast
qed

section \<open>The reducer\<close>

lemma safe_reduce_mean_fst:
  "fst (safe_reduce_mean w img geom scl st) =
     (case getInfo w (reduce_region img geom scl) of Inl e \<Rightarrow> None | Inr d \<Rightarrow> Some d)"
  by (simp add: safe_reduce_mean_def Let_def split: sum.splits)

lemma safe_reduce_mean_ee_calls:
  "ee_calls (snd (safe_reduce_mean w img geom scl st)) = ee_calls st @ [reduce_region img geom scl]"
  by (simp add: safe_reduce_mean_def Let_def print_def split: sum.splits)

lemma safe_reduce_mean_gh_calls:
  "gh_calls (snd (safe_reduce_mean w img geom scl st)) = gh_calls st"
  by (simp add: safe_reduce_mean_def Let_def print_def split: sum.splits)

lemma safe_reduce_mean_files:
  "files (snd (safe_reduce_mean w img geom scl st)) = files st"
  by (simp add: safe_reduce_mean_def Let_def print_def split: sum.splits)



section \<open>The documents\<close>

lemma section_1_current_fst:
  "fst (section_1_current w st) =
     (Date (isoformat (utcnow w 0)),
      current_json (now_iso (utcnow w 1))
        (pm25_now_ug (fst (safe_reduce_mean w
           (Mean (cams_nrt (Advance (Date (isoformat (utcnow w 0))) (- 1) ''day'')
              (Date (isoformat (utcnow w 0))))) POINT REDUCE_SCALE st0)))
        (temp_now_c (fst (safe_reduce_mean w latest_temp_img POINT REDUCE_SCALE st0))))"
  by (simp add: section_1_current_def Let_def split_beta safe_reduce_mean_fst)

lemma section_1_current_ee_calls:
  "ee_calls (snd (section_1_current w st)) =
     ee_calls st @
     [reduce_region (Mean (cams_nrt (Advance (Date (isoformat (utcnow w 0))) (- 1) ''day'')
              (Date (isoformat (utcnow w 0))))) POINT REDUCE_SCALE,
      reduce_region latest_temp_img POINT REDUCE_SCALE]"
  by (simp add: section_1_current_def Let_def split_beta safe_reduce_mean_ee_calls)

lemma section_1_current_gh_calls:
  "gh_calls (snd (section_1_current w st)) = gh_calls st"
  by (simp add: section_1_current_def Let_def split_beta safe_reduce_mean_gh_calls)

lemma section_1_current_files [simp]: "files (snd (section_1_current w st)) = files st"
  by (simp add: section_1_current_def Let_def split_beta safe_reduce_mean_files)

lemma section_1_current_keys:
  "\<exists>ts pm25 temp. snd (fst (section_1_current w st)) = current_json ts pm25 temp"
  by (metis section_1_current_fst snd_conv)

lemma section_2_annual_fst:
  "fst (section_2_annual w ee_now st) =
     (annual_pm25_json
        (annual_pm25_ug (fst (safe_reduce_mean w
           (Mean (cams_365 (Advance ee_now (- 365) ''day'') ee_now)) POINT REDUCE_SCALE st0)))
        (now_iso (utcnow w 2)),
      annual_temp_json
        (annual_temp_c (fst (safe_reduce_mean w
           (Mean (era5_365 (Advance ee_now (- 365) ''day'') ee_now)) POINT REDUCE_SCALE st0)))
        (now_iso (utcnow w 3)))"
  by (simp add: section_2_annual_def Let_def split_beta safe_reduce_mean_fst)

lemma section_2_annual_ee_calls:
  "ee_calls (snd (section_2_annual w ee_now st)) =
     ee_calls st @
     [reduce_region (Mean (cams_365 (Advance ee_now (- 365) ''day'') ee_now)) POINT REDUCE_SCALE,
      reduce_region (Mean (era5_365 (Advance ee_now (- 365) ''day'') ee_now)) POINT REDUCE_SCALE]"
  by (simp add: section_2_annual_def Let_def split_beta safe_reduce_mean_ee_calls)

lemma section_2_annual_gh_calls:
  "gh_calls (snd (section_2_annual w ee_now st)) = gh_calls st"
  by (simp add: section_2_annual_def Let_def split_beta safe_reduce_mean_gh_calls)

lemma section_2_annual_files [simp]: "files (snd (section_2_annual w d st)) = files st"
  by (simp add: section_2_annual_def Let_def split_beta safe_reduce_mean_files)

lemma no_data_conversions:
  assumes "no_data s"
  shows "pm25_now_ug s = None" and "temp_now_c s = None"
    and "annual_pm25_ug s = None" and "annual_temp_c s = None"
  using assms
  by (auto simp: no_data_def pm25_now_ug_def temp_now_c_def annual_pm25_ug_def annual_temp_c_def
      Let_def split: option.splits list.splits)

text \<open>
  Claim C3. In every run, when a reduction gives no data (no result, an empty \<open>dict\<close>,
  or \<open>None\<close> for its band), the member of the output document that it feeds,
  \<open>pm25_ugm3\<close> or \<open>temperature_c\<close> of the current and of the annual documents, is
  present with the value \<open>null\<close>: not zero and not left out.
\<close>

theorem absent_reduction_is_null:
  fixes w :: world and st st0 :: state
  defines "ee_now \<equiv> Date (isoformat (utcnow w 0))"
  defines "reduced \<equiv> \<lambda>img. fst (safe_reduce_mean w img POINT REDUCE_SCALE st0)"
  defines "current \<equiv> snd (fst (section_1_current w st))"
  defines "annual_pm25 \<equiv> fst (fst (section_2_annual w ee_now st))"
  defines "annual_temp \<equiv> snd (fst (section_2_annual w ee_now st))"
  shows "(no_data (reduced (Mean (cams_nrt (Advance ee_now (- 1) ''day'') ee_now))) \<longrightarrow>
            map_of current ''pm25_ugm3'' = Some JNull) \<and>
         (no_data (reduced latest_temp_img) \<longrightarrow>
            map_of current ''temperature_c'' = Some JNull) \<and>
         (no_data (reduced (Mean (cams_365 (Advance ee_now (- 365) ''day'') ee_now))) \<longrightarrow>
            map_of annual_pm25 ''pm25_ugm3'' = Some JNull) \<and>
         (no_data (reduced (Mean (era5_365 (Advance ee_now (- 365) ''day'') ee_now))) \<longrightarrow>
            map_of annual_temp ''temperature_c'' = Some JNull)"
  unfolding current_def annual_pm25_def annual_temp_def reduced_def ee_now_def
    section_1_current_fst [of w st st0] section_2_annual_fst [of w _ st st0]
  by (simp add: no_data_conversions current_json_def annual_pm25_json_def annual_temp_json_def
      float_or_none_def)

lemma world_example_no_data:
  "no_data (fst (safe_reduce_mean world_example img POINT REDUCE_SCALE state_0))"
  by (simp add: safe_reduce_mean_fst world_example_def no_data_def)

theorem absent_reduction_is_null_witness:
  "map_of (snd (fst (section_1_current world_example state_0))) ''pm25_ugm3'' = Some JNull \<and>
   map_of (snd (fst (section_1_current world_example state_0))) ''temperature_c'' = Some JNull \<and>
   map_of (fst (fst (section_2_annual world_example (Date (isoformat (utcnow world_example 0))) state_0)))
     ''pm25_ugm3'' = Some JNull \<and>
   map_of (snd (fst (section_2_annual world_example (Date (isoformat (utcnow world_example 0))) state_0)))
     ''temperature_c'' = Some JNull"
  using absent_reduction_is_null [of world_example state_0 state_0] world_example_no_data
  by blast

section \<open>The unit conversions\<close>

lemma float_300: "float_of_rat 300 = Fin False 300"
  by code_simp

lemma float_1e9: "float_of_rat 1000000000 = Fin False 1000000000"
  by code_simp

lemma float_273_15: "float_of_rat (27315 / 100) = Fin False (2402652809016115 / 8796093022208)"
  by code_simp

lemma float_26_85: "float_of_rat (2685 / 100) = Fin False (3778801562340557 / 140737488355328)"
  by code_simp

lemma fsub_300_273_15:
  "fsub (Fin False 300) (Fin False (2402652809016115 / 8796093022208)) =
     Fin False (236175097646285 / 8796093022208)"
  by code_simp

text \<open>Two more values of the arithmetic: the float \<open>0.1\<close>, and \<open>0.1 * 1e9\<close>.\<close>

lemma float_model_examples:
  "float_of_rat (1 / 10) = Fin False (3602879701896397 / 36028797018963968)"
  "fmul (float_of_rat (1 / 10)) (float_of_rat 1000000000) = Fin False 100000000"
  by code_simp+

lemma conversions_first_band:
  "pm25_now_ug (Some ((k, Some v) # rest)) = Some (fmul v (float_of_rat 1000000000))"
  "temp_now_c (Some ((k, Some v) # rest)) = Some (fsub v (float_of_rat (27315 / 100)))"
  "annual_pm25_ug (Some ((k, Some v) # rest)) = Some (fmul v (float_of_rat 1000000000))"
  "annual_temp_c (Some ((k, Some v) # rest)) = Some (fsub v (float_of_rat (27315 / 100)))"
  by (simp_all add: pm25_now_ug_def temp_now_c_def annual_pm25_ug_def annual_temp_c_def
      dict_get_def)

lemma temp_now_c_300:
  "temp_now_c (Some [(''temperature_2m'', Some (float_of_rat 300))]) =
     Some (Fin False (236175097646285 / 8796093022208))"
proof -
  have "temp_now_c (Some [(''temperature_2m'', Some (float_of_rat 300))]) =
      Some (fsub (float_of_rat 300) (float_of_rat (27315 / 100)))"
    by (rule conversions_first_band)
  also have "\<dots> = Some (fsub (Fin False 300) (Fin False (2402652809016115 / 8796093022208)))"
    by (simp only: float_300 float_273_15)
  also have "\<dots> = Some (Fin False (236175097646285 / 8796093022208))"
    by (simp only: fsub_300_273_15)
  finally show ?thesis .
qed

text \<open>
  Claim C4, as the code has it. For a value \<open>v\<close> of the first band that is not \<open>None\<close>,
  the published PM2.5 value is the float product of \<open>v\<close> and \<open>1e9\<close>, and the published
  temperature is the float difference of \<open>v\<close> and \<open>273.15\<close>: the results of binary64
  arithmetic, rounded to the nearest float, where \<open>273.15\<close> itself is the float nearest to
  that decimal. For \<open>v = 300.0\<close> the temperature is the float
  \<open>236175097646285 / 2^43\<close>, which prints as \<open>26.850000000000023\<close>.
\<close>

theorem unit_conversions_binary64:
  "pm25_now_ug (Some ((k, Some v) # rest)) = Some (fmul v (float_of_rat 1000000000)) \<and>
   annual_pm25_ug (Some ((k, Some v) # rest)) = Some (fmul v (float_of_rat 1000000000)) \<and>
   temp_now_c (Some ((k, Some v) # rest)) = Some (fsub v (float_of_rat (27315 / 100))) \<and>
   annual_temp_c (Some ((k, Some v) # rest)) = Some (fsub v (float_of_rat (27315 / 100))) \<and>
   float_of_rat 1000000000 = Fin False 1000000000 \<and>
   float_of_rat (27315 / 100) = Fin False (2402652809016115 / 8796093022208) \<and>
   temp_now_c (Some [(''temperature_2m'', Some (float_of_rat 300))]) =
     Some (Fin False (236175097646285 / 8796093022208))"
  using conversions_first_band [of k v rest] float_1e9 float_273_15 temp_now_c_300
  by (intro conjI)

text \<open>
  The claim C4 as stated gives \<open>26.85\<close> for \<open>v = 300.0\<close>. The published value is
  neither the float \<open>26.85\<close> nor the rational number \<open>26.85\<close>.
\<close>

theorem kelvin_300_not_26_85:
  "temp_now_c (Some [(''temperature_2m'', Some (float_of_rat 300))]) \<noteq>
     Some (float_of_rat (2685 / 100)) \<and>
   temp_now_c (Some [(''temperature_2m'', Some (float_of_rat 300))]) \<noteq>
     Some (Fin False (2685 / 100))"
proof -
  have "Fin False (236175097646285 / 8796093022208) \<noteq> Fin False (3778801562340557 / 140737488355328)"
    by simp
  moreover have "Fin False (236175097646285 / 8796093022208) \<noteq> Fin False (2685 / 100)"
    by simp
  ultimately show ?thesis
    by (simp only: temp_now_c_300 float_26_85 option.inject simp_thms)
qed

section \<open>The upload\<close>

lemma print_simps [simp]:
  "files (print m st) = files st"
  "ee_calls (print m st) = ee_calls st"
  "gh_calls (print m st) = gh_calls st"
  "stdout (print m st) = stdout st @ [m]"
  by (simp_all add: print_def)

lemma call_simps [simp]:
  "files (call c st) = files st"
  "ee_calls (call c st) = ee_calls st"
  "gh_calls (call c st) = gh_calls st @ [c]"
  "stdout (call c st) = stdout st"
  by (simp_all add: call_def)

lemma upload_json_except_simps [simp]:
  "files (upload_json_except w p content st) = files st"
  "ee_calls (upload_json_except w p content st) = ee_calls st"
  "gh_calls (upload_json_except w p content st) =
     gh_calls st @ [Create_file p (''Create '' @ basename p) content]"
  by (simp_all add: upload_json_except_def Let_def split: option.splits)

lemma upload_json_except_stdout:
  "stdout (upload_json_except w p content st) =
     stdout st @
     [case create_file w (gh_calls st) p (''Create '' @ basename p) content of
        None \<Rightarrow> Created p | Some e2 \<Rightarrow> Failed_to_upload p e2]"
  by (simp add: upload_json_except_def Let_def split: option.splits)

lemma upload_json_files [simp]: "files (snd (upload_json w p local_file st)) = files st"
  by (simp add: upload_json_def Let_def split: sum.splits option.splits)

lemma upload_json_ee_calls [simp]: "ee_calls (snd (upload_json w p local_file st)) = ee_calls st"
  by (simp add: upload_json_def Let_def split: sum.splits option.splits)

lemma upload_json_returns:
  "open_read (files st) local_file = Inr content \<Longrightarrow> fst (upload_json w p local_file st) = None"
  by (simp add: upload_json_def Let_def split: sum.splits option.splits)


lemma upload_json_not_found:
  assumes "open_read (files st) local_file = Inr content"
    and "get_contents w (gh_calls st) p = Inl e"
  shows "gh_calls (snd (upload_json w p local_file st)) =
     gh_calls st @ [Get_contents p, Create_file p (''Create '' @ basename p) content]"
    and "stdout (snd (upload_json w p local_file st)) =
     stdout st @
     [case create_file w (gh_calls st @ [Get_contents p]) p (''Create '' @ basename p) content of
        None \<Rightarrow> Created p | Some e2 \<Rightarrow> Failed_to_upload p e2]"
  using assms by (simp_all add: upload_json_def Let_def upload_json_except_stdout)

lemma upload_json_writes:
  assumes "open_read (files st) local_file = Inr content"
  shows "\<exists>u. gh_calls (snd (upload_json w p local_file st)) = gh_calls st @ Get_contents p # u \<and>
           u \<noteq> [] \<and> list_all (writes_document content) u"
  using assms by (simp add: upload_json_def Let_def split: sum.splits option.splits)

lemma upload_json_stdout:
  "\<exists>out. stdout (snd (upload_json w p local_file st)) = stdout st @ out"
  by (simp add: upload_json_def Let_def upload_json_except_stdout split: sum.splits option.splits)

lemma basename_outputs:
  "basename OUT_CURRENT = ''current.json''"
  "basename OUT_ANNUAL_PM25 = ''annual_pm25.json''"
  "basename OUT_ANNUAL_TEMP = ''annual_temperature.json''"
  "basename OUT_HISTORY = ''history.json''"
  by (simp_all add: basename_def OUT_CURRENT_def OUT_ANNUAL_PM25_def OUT_ANNUAL_TEMP_def
      OUT_HISTORY_def)

lemma and_then_None: "fst r = None \<Longrightarrow> and_then r f = f (snd r)"
  by (simp add: and_then_def)

lemma and_then_ee_calls:
  "(\<And>st. ee_calls (snd (f st)) = ee_calls st) \<Longrightarrow>
     ee_calls (snd (and_then r f)) = ee_calls (snd r)"
  by (simp add: and_then_def split: option.splits)

lemma and_then_gh_calls:
  "(\<And>st. gh_calls (snd (f st)) = gh_calls st) \<Longrightarrow>
     gh_calls (snd (and_then r f)) = gh_calls (snd r)"
  by (simp add: and_then_def split: option.splits)

lemma and_then_fst_None:
  "fst (and_then r f) = None \<longleftrightarrow> fst r = None \<and> fst (f (snd r)) = None"
  by (auto simp: and_then_def split: option.splits)

lemma and_then_chain4:
  "fst (and_then r1 (\<lambda>s1. and_then (f2 s1) (\<lambda>s2. and_then (f3 s2) (\<lambda>s3.
      and_then (f4 s3) (\<lambda>s4. (None, g s4)))))) = None \<Longrightarrow>
     fst r1 = None \<and> fst (f2 (snd r1)) = None \<and> fst (f3 (snd (f2 (snd r1)))) = None \<and>
     fst (f4 (snd (f3 (snd (f2 (snd r1)))))) = None \<and>
     and_then r1 (\<lambda>s1. and_then (f2 s1) (\<lambda>s2. and_then (f3 s2) (\<lambda>s3.
       and_then (f4 s3) (\<lambda>s4. (None, g s4))))) =
       (None, g (snd (f4 (snd (f3 (snd (f2 (snd r1))))))))"
  by (auto simp: and_then_def split: option.splits)

lemma section_5_upload_ee_calls [simp]: "ee_calls (snd (section_5_upload w st)) = ee_calls st"
  by (simp add: section_5_upload_def Let_def and_then_ee_calls split: option.splits)

lemma section_5_upload_no_token:
  "getenv w ''GITHUB_TOKEN'' = None \<or> getenv w ''GITHUB_TOKEN'' = Some [] \<Longrightarrow>
     section_5_upload w st = (Some (RuntimeError ''GITHUB_TOKEN environment variable not set.''), st)"
  by (auto simp: section_5_upload_def)

lemma section_5_upload_runs:
  assumes token: "getenv w ''GITHUB_TOKEN'' = Some t" "t \<noteq> []"
    and repo: "get_repo w REPO_NAME = None"
    and r1: "open_read (files st) ''current.json'' = Inr c1"
    and r2: "open_read (files st) ''annual_pm25.json'' = Inr c2"
    and r3: "open_read (files st) ''annual_temperature.json'' = Inr c3"
    and r4: "open_read (files st) HISTORY_LOCAL = Inr c4"
  shows "section_5_upload w st =
           (None, print All_files_uploaded
              (snd (upload_json w OUT_HISTORY HISTORY_LOCAL
              (snd (upload_json w OUT_ANNUAL_TEMP ''annual_temperature.json''
              (snd (upload_json w OUT_ANNUAL_PM25 ''annual_pm25.json''
              (snd (upload_json w OUT_CURRENT ''current.json''
                (call (Get_repo REPO_NAME) st))))))))))"
    and "\<exists>u1 u2 u3 u4. gh_calls (snd (section_5_upload w st)) =
           gh_calls st @ Get_repo REPO_NAME # Get_contents OUT_CURRENT # u1 @
           Get_contents OUT_ANNUAL_PM25 # u2 @ Get_contents OUT_ANNUAL_TEMP # u3 @
           Get_contents OUT_HISTORY # u4 \<and>
           u1 \<noteq> [] \<and> list_all (writes_document c1) u1 \<and>
           u2 \<noteq> [] \<and> list_all (writes_document c2) u2 \<and>
           u3 \<noteq> [] \<and> list_all (writes_document c3) u3 \<and>
           u4 \<noteq> [] \<and> list_all (writes_document c4) u4"
    and "\<exists>out. stdout (snd (section_5_upload w st)) = stdout st @ out @ [All_files_uploaded]"
proof -
  define st1 where "st1 = call (Get_repo REPO_NAME) st"
  define st2 where "st2 = snd (upload_json w OUT_CURRENT ''current.json'' st1)"
  define st3 where "st3 = snd (upload_json w OUT_ANNUAL_PM25 ''annual_pm25.json'' st2)"
  define st4 where "st4 = snd (upload_json w OUT_ANNUAL_TEMP ''annual_temperature.json'' st3)"
  define st5 where "st5 = snd (upload_json w OUT_HISTORY HISTORY_LOCAL st4)"
  have f: "files st1 = files st" "files st2 = files st" "files st3 = files st" "files st4 = files st"
    by (simp_all add: st1_def st2_def st3_def st4_def)
  have n1: "fst (upload_json w OUT_CURRENT ''current.json'' st1) = None"
    using r1 by (simp add: upload_json_returns f)
  have n2: "fst (upload_json w OUT_ANNUAL_PM25 ''annual_pm25.json'' st2) = None"
    using r2 by (simp add: upload_json_returns f)
  have n3: "fst (upload_json w OUT_ANNUAL_TEMP ''annual_temperature.json'' st3) = None"
    using r3 by (simp add: upload_json_returns f)
  have n4: "fst (upload_json w OUT_HISTORY HISTORY_LOCAL st4) = None"
    using r4 by (simp add: upload_json_returns f)
  have run: "section_5_upload w st = (None, print All_files_uploaded st5)"
    using token repo n1 n2 n3 n4
    by (simp add: section_5_upload_def Let_def and_then_None
        st1_def [symmetric] st2_def [symmetric] st3_def [symmetric] st4_def [symmetric]
        st5_def [symmetric])
  then show "section_5_upload w st =
           (None, print All_files_uploaded
              (snd (upload_json w OUT_HISTORY HISTORY_LOCAL
              (snd (upload_json w OUT_ANNUAL_TEMP ''annual_temperature.json''
              (snd (upload_json w OUT_ANNUAL_PM25 ''annual_pm25.json''
              (snd (upload_json w OUT_CURRENT ''current.json''
                (call (Get_repo REPO_NAME) st))))))))))"
    by (simp add: st5_def st4_def st3_def st2_def st1_def)
  obtain u1 where u1: "gh_calls st2 = gh_calls st1 @ Get_contents OUT_CURRENT # u1"
    "u1 \<noteq> []" "list_all (writes_document c1) u1"
    using upload_json_writes [of st1 "''current.json''" c1 w OUT_CURRENT] r1
    by (auto simp: f st2_def)
  obtain u2 where u2: "gh_calls st3 = gh_calls st2 @ Get_contents OUT_ANNUAL_PM25 # u2"
    "u2 \<noteq> []" "list_all (writes_document c2) u2"
    using upload_json_writes [of st2 "''annual_pm25.json''" c2 w OUT_ANNUAL_PM25] r2
    by (auto simp: f st3_def)
  obtain u3 where u3: "gh_calls st4 = gh_calls st3 @ Get_contents OUT_ANNUAL_TEMP # u3"
    "u3 \<noteq> []" "list_all (writes_document c3) u3"
    using upload_json_writes [of st3 "''annual_temperature.json''" c3 w OUT_ANNUAL_TEMP] r3
    by (auto simp: f st4_def)
  obtain u4 where u4: "gh_calls st5 = gh_calls st4 @ Get_contents OUT_HISTORY # u4"
    "u4 \<noteq> []" "list_all (writes_document c4) u4"
    using upload_json_writes [of st4 HISTORY_LOCAL c4 w OUT_HISTORY] r4
    by (auto simp: f st5_def)
  have "gh_calls (snd (section_5_upload w st)) =
           gh_calls st @ Get_repo REPO_NAME # Get_contents OUT_CURRENT # u1 @
           Get_contents OUT_ANNUAL_PM25 # u2 @ Get_contents OUT_ANNUAL_TEMP # u3 @
           Get_contents OUT_HISTORY # u4"
    by (simp add: run u1 u2 u3 u4 st1_def)
  with u1 u2 u3 u4 show "\<exists>u1 u2 u3 u4. gh_calls (snd (section_5_upload w st)) =
           gh_calls st @ Get_repo REPO_NAME # Get_contents OUT_CURRENT # u1 @
           Get_contents OUT_ANNUAL_PM25 # u2 @ Get_contents OUT_ANNUAL_TEMP # u3 @
           Get_contents OUT_HISTORY # u4 \<and>
           u1 \<noteq> [] \<and> list_all (writes_document c1) u1 \<and>
           u2 \<noteq> [] \<and> list_all (writes_document c2) u2 \<and>
           u3 \<noteq> [] \<and> list_all (writes_document c3) u3 \<and>
           u4 \<noteq> [] \<and> list_all (writes_document c4) u4"
    by blast
  obtain o1 where o1: "stdout st2 = stdout st1 @ o1"
    using upload_json_stdout [of w OUT_CURRENT] st2_def by blast
  obtain o2 where o2: "stdout st3 = stdout st2 @ o2"
    using upload_json_stdout [of w OUT_ANNUAL_PM25] st3_def by blast
  obtain o3 where o3: "stdout st4 = stdout st3 @ o3"
    using upload_json_stdout [of w OUT_ANNUAL_TEMP] st4_def by blast
  obtain o4 where o4: "stdout st5 = stdout st4 @ o4"
    using upload_json_stdout [of w OUT_HISTORY] st5_def by blast
  have "stdout (snd (section_5_upload w st)) = stdout st @ (o1 @ o2 @ o3 @ o4) @ [All_files_uploaded]"
    by (simp add: run o1 o2 o3 o4 st1_def)
  then show "\<exists>out. stdout (snd (section_5_upload w st)) = stdout st @ out @ [All_files_uploaded]"
    by blast
qed

section \<open>The local writes\<close>

lemma write_json_unwritable [simp]: "unwritable (snd (write_json js fs p v)) = unwritable fs"
  by (simp add: write_json_def split: option.splits dump_result.splits)

lemma write_json_None:
  "fst (write_json js fs p v) = None \<Longrightarrow>
     \<exists>s. dump js v = Written s \<and> unwritable fs p = None \<and>
         snd (write_json js fs p v) = set_text fs p s"
  by (auto simp: write_json_def split: option.splits dump_result.splits)

lemma write_json_ok:
  "unwritable fs p = None \<Longrightarrow> \<exists>s. dump js v = Written s \<Longrightarrow> fst (write_json js fs p v) = None"
  by (auto simp: write_json_def)

lemma write_local_simps [simp]:
  "ee_calls (snd (write_local w fname obj st)) = ee_calls st"
  "gh_calls (snd (write_local w fname obj st)) = gh_calls st"
  "stdout (snd (write_local w fname obj st)) = stdout st"
  by (simp_all add: write_local_def split_beta)

lemma write_local_None:
  "fst (write_local w fname obj st) = None \<Longrightarrow>
     \<exists>s. dump (json w) obj = Written s \<and> unwritable (files st) fname = None \<and>
         files (snd (write_local w fname obj st)) = set_text (files st) fname s"
  using write_json_None [of "json w" "files st" fname obj]
  by (simp add: write_local_def split_beta)

lemma append_history_gh:
  "fst (append_history js fs p obj n) = Inr new \<Longrightarrow>
     \<exists>s. dump js (JArr new) = Written s \<and> unwritable fs p = None \<and>
         snd (append_history js fs p obj n) = set_text fs p s"
  by (auto simp: append_history_def write_json_def Let_def
      split: json.splits sum.splits option.splits dump_result.splits prod.splits)

lemma append_history_unwritable [simp]:
  "unwritable (snd (append_history js fs p obj n)) = unwritable fs"
  by (auto simp: append_history_def write_json_def Let_def
      split: json.splits sum.splits option.splits dump_result.splits prod.splits)

lemma append_history_not_list:
  "\<not> is_list (read_local_history js fs p) \<Longrightarrow>
     append_history js fs p obj n = (Inl (AttributeError ''append''), fs)"
  by (cases "read_local_history js fs p") (simp_all add: append_history_def)

section \<open>The whole run\<close>

lemma sections_1_to_4_ee_failed:
  "ee_Initialize w = Some e \<Longrightarrow>
     sections_1_to_4 w fs =
       (Some (RuntimeError EE_failed_message),
        \<lparr> files = fs, stdout = [], ee_calls = [], gh_calls = [] \<rparr>)"
  by (simp add: sections_1_to_4_def)

lemma sections_1_to_4_gh_calls [simp]: "gh_calls (snd (sections_1_to_4 w fs)) = []"
  by (simp add: sections_1_to_4_def Let_def split_beta and_then_gh_calls
      section_1_current_gh_calls section_2_annual_gh_calls split: option.splits sum.splits)

lemma sections_1_to_4_ee_calls:
  "ee_calls (snd (sections_1_to_4 w fs)) =
     (case ee_Initialize w of Some e \<Rightarrow> [] | None \<Rightarrow> script_reductions w)"
  by (simp add: sections_1_to_4_def Let_def split_beta and_then_ee_calls
      section_1_current_ee_calls section_2_annual_ee_calls script_reductions_def
      section_1_current_fst [where ?st0.0 = state_0] split: option.splits sum.splits)

lemma update_json_ee_calls:
  "ee_calls (snd (update_json w fs)) =
     (case ee_Initialize w of Some e \<Rightarrow> [] | None \<Rightarrow> script_reductions w)"
  by (simp add: update_json_def and_then_ee_calls sections_1_to_4_ee_calls)

lemma update_json_no_token:
  assumes "getenv w ''GITHUB_TOKEN'' = None \<or> getenv w ''GITHUB_TOKEN'' = Some []"
  shows "\<exists>e. fst (update_json w fs) = Some e"
    and "gh_calls (snd (update_json w fs)) = []"
    and "snd (update_json w fs) = snd (sections_1_to_4 w fs)"
    and "fst (sections_1_to_4 w fs) = None \<Longrightarrow>
           fst (update_json w fs) = Some (RuntimeError ''GITHUB_TOKEN environment variable not set.'')"
  using section_5_upload_no_token [OF assms]
  by (cases "fst (sections_1_to_4 w fs)"; simp add: update_json_def and_then_def)+

lemma sections_1_to_4_completed:
  assumes "fst (sections_1_to_4 w fs) = None"
  shows "\<exists>hist new c1 c2 c3 c4.
           ee_Initialize w = None \<and>
           read_local_history (json w) fs HISTORY_LOCAL = JArr hist \<and>
           fst (append_history (json w) fs HISTORY_LOCAL (snd (fst (section_1_current w st0)))
                  HISTORY_MAX) = Inr new \<and>
           dump (json w) (JArr new) = Written c4 \<and>
           dump (json w) (JObj (snd (fst (section_1_current w st0)))) = Written c1 \<and>
           dump (json w) (JObj (fst (fst (section_2_annual w (Date (isoformat (utcnow w 0))) st0)))) =
             Written c2 \<and>
           dump (json w) (JObj (snd (fst (section_2_annual w (Date (isoformat (utcnow w 0))) st0)))) =
             Written c3 \<and>
           files (snd (sections_1_to_4 w fs)) =
             set_text (set_text (set_text (set_text (set_text fs HISTORY_LOCAL c4)
               ''current.json'' c1) ''annual_pm25.json'' c2) ''annual_temperature.json'' c3)
               HISTORY_LOCAL c4 \<and>
           unwritable fs HISTORY_LOCAL = None \<and> unwritable fs ''current.json'' = None \<and>
           unwritable fs ''annual_pm25.json'' = None \<and>
           unwritable fs ''annual_temperature.json'' = None \<and>
           (\<exists>out. stdout (snd (sections_1_to_4 w fs)) = out @ [Local_files_written])"
proof -
  have init: "ee_Initialize w = None"
    using assms by (cases "ee_Initialize w") (simp_all add: sections_1_to_4_ee_failed)
  define st1 where "st1 = print EE_initialized \<lparr> files = fs, stdout = [], ee_calls = [], gh_calls = [] \<rparr>"
  define st2 where "st2 = snd (section_1_current w st1)"
  define ee_now where "ee_now = fst (fst (section_1_current w st1))"
  define current where "current = snd (fst (section_1_current w st1))"
  define st3 where "st3 = snd (section_2_annual w ee_now st2)"
  define annual_pm25 where "annual_pm25 = fst (fst (section_2_annual w ee_now st2))"
  define annual_temp where "annual_temp = snd (fst (section_2_annual w ee_now st2))"
  define app where "app = append_history (json w) fs HISTORY_LOCAL current HISTORY_MAX"
  define st4 where "st4 = st3\<lparr>files := snd app\<rparr>"
  have fs3: "files st3 = fs" by (simp add: st3_def st2_def st1_def)
  have en: "ee_now = Date (isoformat (utcnow w 0))"
    by (simp add: ee_now_def section_1_current_fst [where ?st0.0 = state_0])
  have cur: "current = snd (fst (section_1_current w st0))"
    by (simp add: current_def section_1_current_fst [where ?st0.0 = state_0])
  have ap: "annual_pm25 = fst (fst (section_2_annual w (Date (isoformat (utcnow w 0))) st0))"
    and at: "annual_temp = snd (fst (section_2_annual w (Date (isoformat (utcnow w 0))) st0))"
    by (simp_all add: annual_pm25_def annual_temp_def en section_2_annual_fst [where ?st0.0 = state_0])
  have unf: "sections_1_to_4 w fs =
      (case fst app of
         Inl e \<Rightarrow> (Some e, st4)
       | Inr history_json \<Rightarrow>
           and_then (write_local w ''current.json'' (JObj current) st4) (\<lambda>st5.
           and_then (write_local w ''annual_pm25.json'' (JObj annual_pm25) st5) (\<lambda>st6.
           and_then (write_local w ''annual_temperature.json'' (JObj annual_temp) st6) (\<lambda>st7.
           and_then (write_local w HISTORY_LOCAL (JArr history_json) st7) (\<lambda>st8.
           (None, print Local_files_written st8))))))"
    unfolding st4_def app_def annual_temp_def annual_pm25_def st3_def current_def ee_now_def
      st2_def st1_def
    using init by (simp add: sections_1_to_4_def Let_def split_beta cong: sum.case_cong)
  obtain new where new: "fst app = Inr new"
    using assms by (cases "fst app") (simp_all add: unf)
  have lst: "is_list (read_local_history (json w) fs HISTORY_LOCAL)"
  proof (rule ccontr)
    assume "\<not> is_list (read_local_history (json w) fs HISTORY_LOCAL)"
    then have "fst app = Inl (AttributeError ''append'')"
      by (simp add: app_def append_history_not_list)
    with new show False by simp
  qed
  then obtain hist where hist: "read_local_history (json w) fs HISTORY_LOCAL = JArr hist"
    by (cases "read_local_history (json w) fs HISTORY_LOCAL") simp_all
  obtain h0 where h0: "unwritable fs HISTORY_LOCAL = None" "snd app = set_text fs HISTORY_LOCAL h0"
    and dh: "dump (json w) (JArr new) = Written h0"
    using append_history_gh [of "json w" fs HISTORY_LOCAL current HISTORY_MAX new] new
    by (auto simp: app_def)
  define st5 where "st5 = snd (write_local w ''current.json'' (JObj current) st4)"
  define st6 where "st6 = snd (write_local w ''annual_pm25.json'' (JObj annual_pm25) st5)"
  define st7 where "st7 = snd (write_local w ''annual_temperature.json'' (JObj annual_temp) st6)"
  define st8 where "st8 = snd (write_local w HISTORY_LOCAL (JArr new) st7)"
  have a0: "fst (and_then (write_local w ''current.json'' (JObj current) st4) (\<lambda>st5.
           and_then (write_local w ''annual_pm25.json'' (JObj annual_pm25) st5) (\<lambda>st6.
           and_then (write_local w ''annual_temperature.json'' (JObj annual_temp) st6) (\<lambda>st7.
           and_then (write_local w HISTORY_LOCAL (JArr new) st7) (\<lambda>st8.
           (None, print Local_files_written st8)))))) = None"
    using assms by (simp add: unf new)
  note ch = and_then_chain4 [OF a0]
  have fin: "sections_1_to_4 w fs = (None, print Local_files_written st8)"
    using ch by (simp add: unf new st8_def st7_def st6_def st5_def)
  have f4: "files st4 = set_text fs HISTORY_LOCAL h0" by (simp add: st4_def h0)
  obtain c1 where c1: "dump (json w) (JObj current) = Written c1"
    "unwritable (files st4) ''current.json'' = None"
    "files st5 = set_text (files st4) ''current.json'' c1"
    using write_local_None [of w "''current.json''" "JObj current" st4] ch
    by (auto simp: st5_def)
  obtain c2 where c2: "dump (json w) (JObj annual_pm25) = Written c2"
    "unwritable (files st5) ''annual_pm25.json'' = None"
    "files st6 = set_text (files st5) ''annual_pm25.json'' c2"
    using write_local_None [of w "''annual_pm25.json''" "JObj annual_pm25" st5] ch
    by (auto simp: st6_def st5_def)
  obtain c3 where c3: "dump (json w) (JObj annual_temp) = Written c3"
    "unwritable (files st6) ''annual_temperature.json'' = None"
    "files st7 = set_text (files st6) ''annual_temperature.json'' c3"
    using write_local_None [of w "''annual_temperature.json''" "JObj annual_temp" st6] ch
    by (auto simp: st7_def st6_def st5_def)
  have c4: "files st8 = set_text (files st7) HISTORY_LOCAL h0"
    using write_local_None [of w HISTORY_LOCAL "JArr new" st7] ch dh
    by (auto simp: st8_def st7_def st6_def st5_def)
  have app_new: "fst (append_history (json w) fs HISTORY_LOCAL (snd (fst (section_1_current w st0)))
                  HISTORY_MAX) = Inr new"
    using new by (simp add: app_def cur)
  have files: "files (snd (sections_1_to_4 w fs)) =
      set_text (set_text (set_text (set_text (set_text fs HISTORY_LOCAL h0)
               ''current.json'' c1) ''annual_pm25.json'' c2) ''annual_temperature.json'' c3)
               HISTORY_LOCAL h0"
    by (simp add: fin c4 c3 c2 c1 f4)
  have uw: "unwritable fs ''current.json'' = None" "unwritable fs ''annual_pm25.json'' = None"
    "unwritable fs ''annual_temperature.json'' = None"
    using c1(2) c2(2) c3(2) by (simp_all add: f4 c1(3) c2(3))
  have out: "\<exists>out. stdout (snd (sections_1_to_4 w fs)) = out @ [Local_files_written]"
    by (simp add: fin)
  show ?thesis
    using init hist app_new dh c1(1) c2(1) c3(1) files h0(1) uw out
    unfolding cur ap at by blast
qed

lemma sections_1_to_4_readable:
  assumes "fst (sections_1_to_4 w fs) = None"
    and "node fs ''current.json'' \<noteq> Unreadable"
    and "node fs ''annual_pm25.json'' \<noteq> Unreadable"
    and "node fs ''annual_temperature.json'' \<noteq> Unreadable"
    and "node fs HISTORY_LOCAL \<noteq> Unreadable"
  shows "\<exists>c1 c2 c3 c4.
           open_read (files (snd (sections_1_to_4 w fs))) ''current.json'' = Inr c1 \<and>
           open_read (files (snd (sections_1_to_4 w fs))) ''annual_pm25.json'' = Inr c2 \<and>
           open_read (files (snd (sections_1_to_4 w fs))) ''annual_temperature.json'' = Inr c3 \<and>
           open_read (files (snd (sections_1_to_4 w fs))) HISTORY_LOCAL = Inr c4 \<and>
           dump (json w) (JObj (snd (fst (section_1_current w st0)))) = Written c1 \<and>
           dump (json w) (JObj (fst (fst (section_2_annual w (Date (isoformat (utcnow w 0))) st0)))) =
             Written c2 \<and>
           dump (json w) (JObj (snd (fst (section_2_annual w (Date (isoformat (utcnow w 0))) st0)))) =
             Written c3"
proof -
  from sections_1_to_4_completed [OF assms(1), of st0]
  obtain c1 c2 c3 c4 where
    d: "dump (json w) (JObj (snd (fst (section_1_current w st0)))) = Written c1"
      "dump (json w) (JObj (fst (fst (section_2_annual w (Date (isoformat (utcnow w 0))) st0)))) =
             Written c2"
      "dump (json w) (JObj (snd (fst (section_2_annual w (Date (isoformat (utcnow w 0))) st0)))) =
             Written c3"
    and f: "files (snd (sections_1_to_4 w fs)) =
             set_text (set_text (set_text (set_text (set_text fs HISTORY_LOCAL c4)
               ''current.json'' c1) ''annual_pm25.json'' c2) ''annual_temperature.json'' c3)
               HISTORY_LOCAL c4"
    by blast
  have "open_read (files (snd (sections_1_to_4 w fs))) ''current.json'' = Inr c1"
    "open_read (files (snd (sections_1_to_4 w fs))) ''annual_pm25.json'' = Inr c2"
    "open_read (files (snd (sections_1_to_4 w fs))) ''annual_temperature.json'' = Inr c3"
    "open_read (files (snd (sections_1_to_4 w fs))) HISTORY_LOCAL = Inr c4"
    using assms(2-5) by (simp_all add: f open_read_def HISTORY_LOCAL_def split: file_state.splits)
  with d show ?thesis by blast
qed

lemma sections_1_to_4_completes:
  assumes init: "ee_Initialize w = None"
    and lst: "is_list (read_local_history (json w) fs HISTORY_LOCAL)"
    and wr: "\<And>p. unwritable fs p = None"
    and dm: "\<And>v. \<exists>s. dump (json w) v = Written s"
  shows "fst (sections_1_to_4 w fs) = None"
proof -
  have wl: "fst (write_local w p v st) = None" if "unwritable (files st) = unwritable fs" for p v st
    using that wr dm by (simp add: write_local_def split_beta write_json_ok)
  have wu: "unwritable (files (snd (write_local w p v st))) = unwritable (files st)" for p v st
    by (simp add: write_local_def split_beta)
  obtain ts pm25 temp where cur: "snd (fst (section_1_current w
      (print EE_initialized \<lparr> files = fs, stdout = [], ee_calls = [], gh_calls = [] \<rparr>))) =
      current_json ts pm25 temp"
    using section_1_current_keys by blast
  obtain hist where hist: "read_local_history (json w) fs HISTORY_LOCAL = JArr hist"
    using lst by (cases "read_local_history (json w) fs HISTORY_LOCAL") simp_all
  have k: "map_of (current_json ts pm25 temp) ''timestamp_utc'' = Some (JStr ts)"
    "map_of (current_json ts pm25 temp) ''pm25_ugm3'' = Some (float_or_none pm25)"
    "map_of (current_json ts pm25 temp) ''temperature_c'' = Some (float_or_none temp)"
    by (simp_all add: current_json_def)
  have "\<exists>new. fst (append_history (json w) fs HISTORY_LOCAL (current_json ts pm25 temp) HISTORY_MAX) =
      Inr new"
    using wr [of HISTORY_LOCAL] dm
    by (simp add: append_history_list [OF hist k refl] split_beta write_json_ok
        split: option.splits)
  then obtain new where new:
    "fst (append_history (json w) fs HISTORY_LOCAL (current_json ts pm25 temp) HISTORY_MAX) = Inr new"
    by blast
  show ?thesis
    using init new
    by (simp add: sections_1_to_4_def Let_def split_beta cur and_then_fst_None wl wu)
qed

lemma update_json_uploads:
  assumes comp: "fst (sections_1_to_4 w fs) = None"
    and token: "getenv w ''GITHUB_TOKEN'' = Some t" "t \<noteq> []"
    and repo: "get_repo w REPO_NAME = None"
    and n1: "node fs ''current.json'' \<noteq> Unreadable"
    and n2: "node fs ''annual_pm25.json'' \<noteq> Unreadable"
    and n3: "node fs ''annual_temperature.json'' \<noteq> Unreadable"
    and n4: "node fs HISTORY_LOCAL \<noteq> Unreadable"
  shows "update_json w fs =
           (None, print All_files_uploaded
              (snd (upload_json w OUT_HISTORY HISTORY_LOCAL
              (snd (upload_json w OUT_ANNUAL_TEMP ''annual_temperature.json''
              (snd (upload_json w OUT_ANNUAL_PM25 ''annual_pm25.json''
              (snd (upload_json w OUT_CURRENT ''current.json''
                (call (Get_repo REPO_NAME) (snd (sections_1_to_4 w fs))))))))))))"
    and "\<exists>c1 c2 c3 c4 u1 u2 u3 u4.
           dump (json w) (JObj (snd (fst (section_1_current w st0)))) = Written c1 \<and>
           dump (json w) (JObj (fst (fst (section_2_annual w (Date (isoformat (utcnow w 0))) st0)))) =
             Written c2 \<and>
           dump (json w) (JObj (snd (fst (section_2_annual w (Date (isoformat (utcnow w 0))) st0)))) =
             Written c3 \<and>
           open_read (files (snd (sections_1_to_4 w fs))) HISTORY_LOCAL = Inr c4 \<and>
           gh_calls (snd (update_json w fs)) =
             Get_repo REPO_NAME # Get_contents OUT_CURRENT # u1 @
             Get_contents OUT_ANNUAL_PM25 # u2 @ Get_contents OUT_ANNUAL_TEMP # u3 @
             Get_contents OUT_HISTORY # u4 \<and>
           u1 \<noteq> [] \<and> list_all (writes_document c1) u1 \<and>
           u2 \<noteq> [] \<and> list_all (writes_document c2) u2 \<and>
           u3 \<noteq> [] \<and> list_all (writes_document c3) u3 \<and>
           u4 \<noteq> [] \<and> list_all (writes_document c4) u4"
    and "\<exists>out. stdout (snd (update_json w fs)) = out @ [All_files_uploaded]"
proof -
  let ?st = "snd (sections_1_to_4 w fs)"
  from sections_1_to_4_readable [OF comp n1 n2 n3 n4, of st0]
  obtain c1 c2 c3 c4 where
    r: "open_read (files ?st) ''current.json'' = Inr c1"
      "open_read (files ?st) ''annual_pm25.json'' = Inr c2"
      "open_read (files ?st) ''annual_temperature.json'' = Inr c3"
      "open_read (files ?st) HISTORY_LOCAL = Inr c4"
    and d: "dump (json w) (JObj (snd (fst (section_1_current w st0)))) = Written c1"
      "dump (json w) (JObj (fst (fst (section_2_annual w (Date (isoformat (utcnow w 0))) st0)))) =
             Written c2"
      "dump (json w) (JObj (snd (fst (section_2_annual w (Date (isoformat (utcnow w 0))) st0)))) =
             Written c3"
    by blast
  have u: "update_json w fs = section_5_upload w ?st"
    using comp by (simp add: update_json_def and_then_None)
  note s5 = section_5_upload_runs [OF token repo r]
  show "update_json w fs =
           (None, print All_files_uploaded
              (snd (upload_json w OUT_HISTORY HISTORY_LOCAL
              (snd (upload_json w OUT_ANNUAL_TEMP ''annual_temperature.json''
              (snd (upload_json w OUT_ANNUAL_PM25 ''annual_pm25.json''
              (snd (upload_json w OUT_CURRENT ''current.json''
                (call (Get_repo REPO_NAME) (snd (sections_1_to_4 w fs))))))))))))"
    using s5(1) by (simp add: u)
  from s5(2) obtain u1 u2 u3 u4 where
    "gh_calls (snd (update_json w fs)) =
             Get_repo REPO_NAME # Get_contents OUT_CURRENT # u1 @
             Get_contents OUT_ANNUAL_PM25 # u2 @ Get_contents OUT_ANNUAL_TEMP # u3 @
             Get_contents OUT_HISTORY # u4"
    "u1 \<noteq> []" "list_all (writes_document c1) u1"
    "u2 \<noteq> []" "list_all (writes_document c2) u2"
    "u3 \<noteq> []" "list_all (writes_document c3) u3"
    "u4 \<noteq> []" "list_all (writes_document c4) u4"
    by (auto simp: u)
  with d r(4) show "\<exists>c1 c2 c3 c4 u1 u2 u3 u4.
           dump (json w) (JObj (snd (fst (section_1_current w st0)))) = Written c1 \<and>
           dump (json w) (JObj (fst (fst (section_2_annual w (Date (isoformat (utcnow w 0))) st0)))) =
             Written c2 \<and>
           dump (json w) (JObj (snd (fst (section_2_annual w (Date (isoformat (utcnow w 0))) st0)))) =
             Written c3 \<and>
           open_read (files (snd (sections_1_to_4 w fs))) HISTORY_LOCAL = Inr c4 \<and>
           gh_calls (snd (update_json w fs)) =
             Get_repo REPO_NAME # Get_contents OUT_CURRENT # u1 @
             Get_contents OUT_ANNUAL_PM25 # u2 @ Get_contents OUT_ANNUAL_TEMP # u3 @
             Get_contents OUT_HISTORY # u4 \<and>
           u1 \<noteq> [] \<and> list_all (writes_document c1) u1 \<and>
           u2 \<noteq> [] \<and> list_all (writes_document c2) u2 \<and>
           u3 \<noteq> [] \<and> list_all (writes_document c3) u3 \<and>
           u4 \<noteq> [] \<and> list_all (writes_document c4) u4"
    by blast
  from s5(3) show "\<exists>out. stdout (snd (update_json w fs)) = out @ [All_files_uploaded]"
    by (metis u append.assoc)
qed

lemma getenv_irrelevant:
  "safe_reduce_mean (w\<lparr>getenv := g\<rparr>) img geom scl st = safe_reduce_mean w img geom scl st"
  "write_local (w\<lparr>getenv := g\<rparr>) fname obj st = write_local w fname obj st"
  "upload_json_except (w\<lparr>getenv := g\<rparr>) p c st = upload_json_except w p c st"
  by (simp_all add: safe_reduce_mean_def write_local_def upload_json_except_def)

lemma getenv_irrelevant_sections:
  "section_1_current (w\<lparr>getenv := g\<rparr>) st = section_1_current w st"
  "section_2_annual (w\<lparr>getenv := g\<rparr>) d st = section_2_annual w d st"
  "upload_json (w\<lparr>getenv := g\<rparr>) p l st = upload_json w p l st"
  by (simp_all add: section_1_current_def section_2_annual_def upload_json_def getenv_irrelevant
      Let_def split_beta cong: sum.case_cong option.case_cong)

lemma update_json_reads_token_only:
  assumes "g ''GITHUB_TOKEN'' = getenv w ''GITHUB_TOKEN''"
  shows "update_json (w\<lparr>getenv := g\<rparr>) fs = update_json w fs"
proof -
  have a: "sections_1_to_4 (w\<lparr>getenv := g\<rparr>) fs = sections_1_to_4 w fs"
    by (simp add: sections_1_to_4_def getenv_irrelevant getenv_irrelevant_sections
        Let_def split_beta cong: sum.case_cong option.case_cong)
  have b: "section_5_upload (w\<lparr>getenv := g\<rparr>) st = section_5_upload w st" for st
    using assms
    by (simp add: section_5_upload_def getenv_irrelevant_sections Let_def
        cong: option.case_cong if_cong)
  have "section_5_upload (w\<lparr>getenv := g\<rparr>) = section_5_upload w"
    by (rule ext) (rule b)
  then show ?thesis by (simp add: update_json_def a)
qed

lemma world_example_completes:
  "fst (sections_1_to_4 world_example fs_missing) = None"
  "fst (sections_1_to_4 world_no_token fs_missing) = None"
  by (rule sections_1_to_4_completes;
      simp add: world_example_def world_no_token_def js_example_def fs_missing_def
        read_local_history_def open_read_def)+

lemma example_local_files:
  assumes "w = world_example \<or> w = world_no_token"
  shows "files (snd (sections_1_to_4 w fs_missing)) =
     set_text (set_text (set_text (set_text (set_text fs_missing HISTORY_LOCAL ''[]'')
       ''current.json'' ''[]'') ''annual_pm25.json'' ''[]'') ''annual_temperature.json'' ''[]'')
       HISTORY_LOCAL ''[]''"
proof -
  have c: "fst (sections_1_to_4 w fs_missing) = None"
    using assms world_example_completes by auto
  have d: "dump (json w) v = Written s \<longleftrightarrow> s = ''[]''" for v s
    using assms by (auto simp: world_example_def world_no_token_def js_example_def)
  from sections_1_to_4_completed [OF c, of state_0] show ?thesis
    by (auto simp: d)
qed

lemma example_local_nodes:
  assumes "w = world_example \<or> w = world_no_token"
  shows "node (files (snd (sections_1_to_4 w fs_missing))) ''current.json'' = Text ''[]''"
    "node (files (snd (sections_1_to_4 w fs_missing))) ''annual_pm25.json'' = Text ''[]''"
    "node (files (snd (sections_1_to_4 w fs_missing))) ''annual_temperature.json'' = Text ''[]''"
    "node (files (snd (sections_1_to_4 w fs_missing))) ''history.json'' = Text ''[]''"
  unfolding example_local_files [OF assms]
  by (simp_all add: HISTORY_LOCAL_def fs_missing_def)

lemma world_example_run:
  "fst (update_json world_example fs_missing) = None"
  "gh_calls (snd (update_json world_example fs_missing)) =
     [Get_repo ''Anfu4354/pm-monitor-data'',
      Get_contents ''data/current.json'',
      Create_file ''data/current.json'' ''Create current.json'' ''[]'',
      Get_contents ''data/annual_pm25.json'',
      Create_file ''data/annual_pm25.json'' ''Create annual_pm25.json'' ''[]'',
      Get_contents ''data/annual_temperature.json'',
      Create_file ''data/annual_temperature.json'' ''Create annual_temperature.json'' ''[]'',
      Get_contents ''data/history.json'',
      Create_file ''data/history.json'' ''Create history.json'' ''[]'']"
proof -
  let ?st = "snd (sections_1_to_4 world_example fs_missing)"
  have t: "getenv world_example ''GITHUB_TOKEN'' = Some ''t0ken''" "''t0ken'' \<noteq> []"
    "get_repo world_example REPO_NAME = None"
    by (simp_all add: world_example_def)
  have n: "node fs_missing ''current.json'' \<noteq> Unreadable"
    "node fs_missing ''annual_pm25.json'' \<noteq> Unreadable"
    "node fs_missing ''annual_temperature.json'' \<noteq> Unreadable"
    "node fs_missing HISTORY_LOCAL \<noteq> Unreadable"
    by (simp_all add: fs_missing_def)
  note run = update_json_uploads(1) [OF world_example_completes(1) t n]
  show "fst (update_json world_example fs_missing) = None" by (simp add: run)
  have r: "open_read (files st) ''current.json'' = Inr ''[]''"
    "open_read (files st) ''annual_pm25.json'' = Inr ''[]''"
    "open_read (files st) ''annual_temperature.json'' = Inr ''[]''"
    "open_read (files st) HISTORY_LOCAL = Inr ''[]''"
    if "files st = files ?st" for st :: state
    using example_local_nodes [of world_example]
    by (simp_all add: that open_read_def HISTORY_LOCAL_def)
  have g: "get_contents world_example cs p = Inl (GithubException ''404'')" for cs p
    by (simp add: world_example_def)
  have up: "gh_calls (snd (upload_json world_example p l st)) =
      gh_calls st @ [Get_contents p, Create_file p (''Create '' @ basename p) ''[]'']"
    if "open_read (files st) l = Inr ''[]''" for p l and st :: state
    using upload_json_not_found(1) [OF that g] .
  show "gh_calls (snd (update_json world_example fs_missing)) =
     [Get_repo ''Anfu4354/pm-monitor-data'',
      Get_contents ''data/current.json'',
      Create_file ''data/current.json'' ''Create current.json'' ''[]'',
      Get_contents ''data/annual_pm25.json'',
      Create_file ''data/annual_pm25.json'' ''Create annual_pm25.json'' ''[]'',
      Get_contents ''data/annual_temperature.json'',
      Create_file ''data/annual_temperature.json'' ''Create annual_temperature.json'' ''[]'',
      Get_contents ''data/history.json'',
      Create_file ''data/history.json'' ''Create history.json'' ''[]'']"
    using basename_outputs
    by (simp add: run up r REPO_NAME_def OUT_CURRENT_def OUT_ANNUAL_PM25_def OUT_ANNUAL_TEMP_def
        OUT_HISTORY_def)
qed

text \<open>
  Claim C6, as the code has it. Every run that initialises its session sends four
  reductions, and the geometry of each is the bare point \<open>POINT\<close>, the default of
  \<open>safe_reduce_mean\<close>, at the scale of 5000 m. The point buffered by 20 km is the
  argument of \<open>filterBounds\<close> on the collections only (see \<open>cams_nrt\<close>, \<open>era5_hourly\<close>,
  \<open>cams_365\<close> and \<open>era5_365\<close>), never the geometry of a reduction.
\<close>

theorem reductions_over_bare_point:
  "ee_calls (snd (update_json w fs)) =
     (case ee_Initialize w of Some e \<Rightarrow> [] | None \<Rightarrow> script_reductions w) \<and>
   map geometry (script_reductions w) = [POINT, POINT, POINT, POINT] \<and>
   map scale (script_reductions w) = [5000, 5000, 5000, 5000] \<and>
   POINT \<noteq> Buffer POINT BUFFER_M"
  by (simp add: update_json_ee_calls script_reductions_def Let_def reduce_region_def POINT_def
      REDUCE_SCALE_def)

text \<open>
  The claim C6 as stated has the buffered point as the geometry of every reduction. In
  the example run reductions are sent, and not all of them (indeed none) are over the
  buffered point.
\<close>

theorem reduction_geometry_not_buffered:
  "ee_calls (snd (update_json world_example fs_missing)) \<noteq> [] \<and>
   \<not> (\<forall>rr \<in> set (ee_calls (snd (update_json world_example fs_missing))).
        geometry rr = Buffer POINT BUFFER_M)"
proof -
  have "ee_Initialize world_example = None" by (simp add: world_example_def)
  then show ?thesis
    by (simp add: update_json_ee_calls script_reductions_def Let_def reduce_region_def POINT_def)
qed

text \<open>
  Claim C8, as the code has it. When the variable \<open>GITHUB_TOKEN\<close> is absent, the run of
  \<open>update_json.py\<close> ends with an exception and has made no call to the repository:
  nothing is published. The token is read only after sections 1 to 4, so the run stops
  in the state these sections left: when they end without an exception, the exception is
  the \<open>RuntimeError\<close> of the check, the four reductions were sent, the history was
  appended and written, and the four local files hold the texts of their documents.
  When the variable \<open>EE_SERVICE_ACCOUNT\<close> is absent, \<open>authenticate.py\<close> ends with
  \<open>KeyError\<close> at its first statement, before it builds credentials or initialises a
  session. \<open>update_json.py\<close> itself reads no variable but the token: a run does the same
  whatever the other variables are.
\<close>

theorem missing_credentials_are_fatal:
  "(getenv w ''GITHUB_TOKEN'' = None \<longrightarrow>
      (\<exists>e. fst (update_json w fs) = Some e) \<and> gh_calls (snd (update_json w fs)) = [] \<and>
      snd (update_json w fs) = snd (sections_1_to_4 w fs)) \<and>
   (getenv w ''GITHUB_TOKEN'' = None \<and> fst (sections_1_to_4 w fs) = None \<longrightarrow>
      fst (update_json w fs) = Some (RuntimeError ''GITHUB_TOKEN environment variable not set.'') \<and>
      ee_calls (snd (update_json w fs)) = script_reductions w \<and>
      (\<exists>hist new c1 c2 c3 c4.
         read_local_history (json w) fs HISTORY_LOCAL = JArr hist \<and>
         fst (append_history (json w) fs HISTORY_LOCAL (snd (fst (section_1_current w st0)))
                HISTORY_MAX) = Inr new \<and>
         dump (json w) (JArr new) = Written c4 \<and>
         dump (json w) (JObj (snd (fst (section_1_current w st0)))) = Written c1 \<and>
         dump (json w) (JObj (fst (fst (section_2_annual w (Date (isoformat (utcnow w 0))) st0)))) =
           Written c2 \<and>
         dump (json w) (JObj (snd (fst (section_2_annual w (Date (isoformat (utcnow w 0))) st0)))) =
           Written c3 \<and>
         files (snd (update_json w fs)) =
           set_text (set_text (set_text (set_text (set_text fs HISTORY_LOCAL c4)
             ''current.json'' c1) ''annual_pm25.json'' c2) ''annual_temperature.json'' c3)
             HISTORY_LOCAL c4) \<and>
      (\<exists>out. stdout (snd (update_json w fs)) = out @ [Local_files_written])) \<and>
   (environ aw ''EE_SERVICE_ACCOUNT'' = None \<longrightarrow>
      authenticate aw = (Some (KeyError ''EE_SERVICE_ACCOUNT''), [])) \<and>
   (g ''GITHUB_TOKEN'' = getenv w ''GITHUB_TOKEN'' \<longrightarrow>
      update_json (w\<lparr>getenv := g\<rparr>) fs = update_json w fs)"
proof (intro conjI impI)
  assume t: "getenv w ''GITHUB_TOKEN'' = None"
  then show "\<exists>e. fst (update_json w fs) = Some e" by (simp add: update_json_no_token)
  from t show "gh_calls (snd (update_json w fs)) = []" by (simp add: update_json_no_token)
  from t show "snd (update_json w fs) = snd (sections_1_to_4 w fs)"
    by (simp add: update_json_no_token)
next
  assume a: "getenv w ''GITHUB_TOKEN'' = None \<and> fst (sections_1_to_4 w fs) = None"
  then have t: "getenv w ''GITHUB_TOKEN'' = None \<or> getenv w ''GITHUB_TOKEN'' = Some []"
    and c: "fst (sections_1_to_4 w fs) = None" by simp_all
  have s: "snd (update_json w fs) = snd (sections_1_to_4 w fs)"
    by (rule update_json_no_token(3) [OF t])
  have i: "ee_Initialize w = None"
    using sections_1_to_4_completed [OF c] by blast
  show "fst (update_json w fs) = Some (RuntimeError ''GITHUB_TOKEN environment variable not set.'')"
    by (rule update_json_no_token(4) [OF t c])
  show "ee_calls (snd (update_json w fs)) = script_reductions w"
    by (simp add: update_json_ee_calls i)
  from sections_1_to_4_completed [OF c, of st0]
  show "\<exists>hist new c1 c2 c3 c4.
         read_local_history (json w) fs HISTORY_LOCAL = JArr hist \<and>
         fst (append_history (json w) fs HISTORY_LOCAL (snd (fst (section_1_current w st0)))
                HISTORY_MAX) = Inr new \<and>
         dump (json w) (JArr new) = Written c4 \<and>
         dump (json w) (JObj (snd (fst (section_1_current w st0)))) = Written c1 \<and>
         dump (json w) (JObj (fst (fst (section_2_annual w (Date (isoformat (utcnow w 0))) st0)))) =
           Written c2 \<and>
         dump (json w) (JObj (snd (fst (section_2_annual w (Date (isoformat (utcnow w 0))) st0)))) =
           Written c3 \<and>
         files (snd (update_json w fs)) =
           set_text (set_text (set_text (set_text (set_text fs HISTORY_LOCAL c4)
             ''current.json'' c1) ''annual_pm25.json'' c2) ''annual_temperature.json'' c3)
             HISTORY_LOCAL c4"
    unfolding s by blast
  from sections_1_to_4_completed [OF c, of st0]
  show "\<exists>out. stdout (snd (update_json w fs)) = out @ [Local_files_written]"
    unfolding s by blast
next
  assume "environ aw ''EE_SERVICE_ACCOUNT'' = None"
  then show "authenticate aw = (Some (KeyError ''EE_SERVICE_ACCOUNT''), [])"
    by (simp add: authenticate_def)
next
  assume "g ''GITHUB_TOKEN'' = getenv w ''GITHUB_TOKEN''"
  then show "update_json (w\<lparr>getenv := g\<rparr>) fs = update_json w fs"
    by (rule update_json_reads_token_only)
qed

theorem missing_credentials_are_fatal_witness:
  "fst (update_json world_no_token fs_missing) =
     Some (RuntimeError ''GITHUB_TOKEN environment variable not set.'') \<and>
   gh_calls (snd (update_json world_no_token fs_missing)) = [] \<and>
   ee_calls (snd (update_json world_no_token fs_missing)) = script_reductions world_no_token \<and>
   (\<exists>out. stdout (snd (update_json world_no_token fs_missing)) = out @ [Local_files_written]) \<and>
   authenticate auth_world_no_secret = (Some (KeyError ''EE_SERVICE_ACCOUNT''), []) \<and>
   update_json (world_example\<lparr>getenv := (\<lambda>k. if k = ''EE_SERVICE_ACCOUNT'' then Some ''sa''
       else getenv world_example k)\<rparr>) fs_missing = update_json world_example fs_missing"
proof -
  have a: "getenv world_no_token ''GITHUB_TOKEN'' = None"
    and d: "environ auth_world_no_secret ''EE_SERVICE_ACCOUNT'' = None"
    and e: "(if ''GITHUB_TOKEN'' = ''EE_SERVICE_ACCOUNT'' then Some ''sa''
       else getenv world_example ''GITHUB_TOKEN'') = getenv world_example ''GITHUB_TOKEN''"
    by (simp_all add: world_no_token_def world_example_def auth_world_no_secret_def)
  show ?thesis
    using missing_credentials_are_fatal [of world_no_token fs_missing state_0 auth_world_no_secret
        "\<lambda>k. None"]
      missing_credentials_are_fatal [of world_example fs_missing state_0 auth_world_no_secret
        "\<lambda>k. if k = ''EE_SERVICE_ACCOUNT'' then Some ''sa'' else getenv world_example k"]
      a d e world_example_completes(2)
    by blast
qed

text \<open>
  The claim C8 as stated has no partial output, and has the run end with an error when
  the secret of the service is absent. In the example run without the token, the error
  is raised after the four reductions were sent and the four local files written, the
  history among them, none of which existed before. In the example run with the token,
  where \<open>EE_SERVICE_ACCOUNT\<close> is absent, \<open>update_json.py\<close> ends without an exception
  after its nine calls to the repository.
\<close>

theorem token_missing_after_local_output:
  "getenv world_no_token ''GITHUB_TOKEN'' = None \<and>
   fst (update_json world_no_token fs_missing) =
     Some (RuntimeError ''GITHUB_TOKEN environment variable not set.'') \<and>
   node fs_missing ''history.json'' = Missing \<and>
   node fs_missing ''current.json'' = Missing \<and>
   node (files (snd (update_json world_no_token fs_missing))) ''history.json'' = Text ''[]'' \<and>
   node (files (snd (update_json world_no_token fs_missing))) ''current.json'' = Text ''[]'' \<and>
   node (files (snd (update_json world_no_token fs_missing))) ''annual_pm25.json'' = Text ''[]'' \<and>
   node (files (snd (update_json world_no_token fs_missing))) ''annual_temperature.json'' =
     Text ''[]'' \<and>
   length (ee_calls (snd (update_json world_no_token fs_missing))) = 4 \<and>
   getenv world_example ''EE_SERVICE_ACCOUNT'' = None \<and>
   fst (update_json world_example fs_missing) = None \<and>
   length (gh_calls (snd (update_json world_example fs_missing))) = 9"
proof -
  have t: "getenv world_no_token ''GITHUB_TOKEN'' = None \<or>
      getenv world_no_token ''GITHUB_TOKEN'' = Some []"
    by (simp add: world_no_token_def)
  have s: "snd (update_json world_no_token fs_missing) = snd (sections_1_to_4 world_no_token fs_missing)"
    by (rule update_json_no_token(3) [OF t])
  have i: "ee_Initialize world_no_token = None"
    by (simp add: world_no_token_def world_example_def)
  have "length (ee_calls (snd (update_json world_no_token fs_missing))) = 4"
    by (simp add: update_json_ee_calls i script_reductions_def Let_def)
  moreover have "getenv world_no_token ''GITHUB_TOKEN'' = None"
    "getenv world_example ''EE_SERVICE_ACCOUNT'' = None"
    "node fs_missing ''history.json'' = Missing" "node fs_missing ''current.json'' = Missing"
    by (simp_all add: world_no_token_def world_example_def fs_missing_def)
  ultimately show ?thesis
    using update_json_no_token(4) [OF t world_example_completes(2)]
      example_local_nodes [of world_no_token] world_example_run
    by (simp add: s)
qed



section \<open>The timestamp\<close>

lemma isoformat_suffix: "\<exists>s. isoformat now = s @ ''+00:00''"
  by (simp add: isoformat_def)

lemma isoformat_not_local: "\<not> iso8601_local (isoformat now @ extra)"
proof -
  obtain s where s: "isoformat now = s @ ''+00:00''" using isoformat_suffix by blast
  have "\<not> list_all (\<lambda>c. is_digit c \<or> c \<in> set ''-:T.'') ((s @ ''+00:00'') @ extra)"
    by (simp add: is_digit_def)
  then show ?thesis
    unfolding iso8601_local_def s by blast
qed

lemma isoformat_example: "isoformat now_example = ''2026-11-03T14:47:00.123456+00:00''"
  by (simp add: isoformat_def zero_pad_def str_nat.simps digit_def now_example_def)

lemma now_iso_example: "now_iso now_example = ''2026-11-03T14:47:00.123456+00:00Z''"
  by (simp add: now_iso_def isoformat_example)

lemma isoformat_example_valid: "iso8601_utc (isoformat now_example)"
  by (simp add: isoformat_example iso8601_utc_def iso8601_local_def is_digit_def)

text \<open>
  Claim C9. The claim asks for a valid ISO 8601 UTC timestamp. \<open>now_iso\<close> appends \<open>Z\<close>
  to a text that already ends with the offset \<open>+00:00\<close>, so its result carries two
  designators of the zone and is not of the ISO 8601 format, at any reading of the clock;
  without the appended \<open>Z\<close> the example is of the format. The member \<open>timestamp_utc\<close> of
  the current document, which the history entry copies to \<open>ts\<close>, is this result.
\<close>

theorem now_iso_not_iso8601:
  "now_iso now = isoformat now @ ''Z'' \<and>
   (\<exists>s. isoformat now = s @ ''+00:00'') \<and>
   \<not> iso8601_utc (now_iso now) \<and>
   now_iso now_example = ''2026-11-03T14:47:00.123456+00:00Z'' \<and>
   iso8601_utc (isoformat now_example) \<and>
   map_of (snd (fst (section_1_current w st))) ''timestamp_utc'' =
     Some (JStr (now_iso (utcnow w 1)))"
proof -
  have "\<not> iso8601_utc (now_iso now)"
    using isoformat_not_local [of now "[]"]
    by (simp add: iso8601_utc_def now_iso_def)
  moreover have "map_of (snd (fst (section_1_current w st))) ''timestamp_utc'' =
     Some (JStr (now_iso (utcnow w 1)))"
    by (simp add: section_1_current_fst [where ?st0.0 = st] current_json_def)
  ultimately show ?thesis
    using isoformat_suffix now_iso_example isoformat_example_valid
    by (simp add: now_iso_def)
qed

end
